theory Spec2Isabelle
  imports Complex_Main "HOL-Library.Sublist" "HOL-Library.AList"
begin

text \<open>
  A shallow embedding of \<open>app.py\<close> of WebWise, a Streamlit application that indexes web
  pages and answers questions about them, and the properties of its specification
  that concern: the section label of a chunk, the choice of the sources to search, the
  rewriting of the retrieval query, content extraction and its fallback, the image
  pipeline and its download checks, the empty-context answer, the image relevance
  ranking, and the batch loop over the submitted URLs.

  The definitions follow the source function by function and keep its names; the line
  numbers are those of \<open>app.py\<close>.  The user interface calls (\<open>st.\<close>...) are left out,
  but for the session state they read and write.
\<close>

section \<open>Strings\<close>

text \<open>
  Python strings are modelled as \<open>string\<close>, lists of 8-bit characters: a text is
  its UTF-8 encoding, and \<open>length\<close> counts bytes where Python counts code points (the
  two agree on ASCII text).  The helpers below model the built-in string operations
  that \<open>app.py\<close> uses: the substring test \<open>needle in haystack\<close>, \<open>str.startswith\<close>,
  \<open>str.lower\<close>, \<open>str.split\<close> and \<open>str.strip\<close>, the last three on the ASCII range.
\<close>

definition startswith :: "string \<Rightarrow> string \<Rightarrow> bool" where
  "startswith s p = (take (length p) s = p)"

text \<open>\<open>str_in needle hay\<close> is Python's \<open>needle in hay\<close> on strings.\<close>

fun str_in :: "string \<Rightarrow> string \<Rightarrow> bool" where
  "str_in needle [] = (needle = [])"
| "str_in needle (c # cs) = (startswith (c # cs) needle \<or> str_in needle cs)"

definition nl :: char where
  "nl = CHR 0x0A"

text \<open>
  \<open>str.lower\<close> on the ASCII letters (other characters are left as they are), and the
  whitespace characters of \<open>str.split()\<close>, \<open>str.strip()\<close> and \<open>int()\<close> in the ASCII
  range.
\<close>

definition char_lower :: "char \<Rightarrow> char" where
  "char_lower c =
     (case map_of (zip ''ABCDEFGHIJKLMNOPQRSTUVWXYZ'' ''abcdefghijklmnopqrstuvwxyz'') c of
        Some d \<Rightarrow> d | None \<Rightarrow> c)"

definition lower :: "string \<Rightarrow> string" where
  "lower s = map char_lower s"

definition is_space :: "char \<Rightarrow> bool" where
  "is_space c = (c \<in> set [CHR 0x20, CHR 0x09, CHR 0x0A, CHR 0x0B, CHR 0x0C, CHR 0x0D,
                            CHR 0x1C, CHR 0x1D, CHR 0x1E, CHR 0x1F])"

text \<open>\<open>split_from w s\<close>: the words of \<open>s\<close>, \<open>w\<close> being the word read so far.\<close>

fun split_from :: "string \<Rightarrow> string \<Rightarrow> string list" where
  "split_from w [] = (if w = [] then [] else [w])"
| "split_from w (c # cs) =
     (if is_space c then (if w = [] then split_from [] cs else w # split_from [] cs)
      else split_from (w @ [c]) cs)"

text \<open>\<open>s.split()\<close>: the maximal runs of non-whitespace characters, in order.\<close>

definition split :: "string \<Rightarrow> string list" where
  "split s = split_from [] s"

text \<open>\<open>s.strip()\<close>.\<close>

definition strip :: "string \<Rightarrow> string" where
  "strip s = rev (dropWhile is_space (rev (dropWhile is_space s)))"

text \<open>
  \<open>xs[:m]\<close> for a Python integer \<open>m\<close>: a negative bound counts from the end.
\<close>

definition slice_to :: "int \<Rightarrow> 'a list \<Rightarrow> 'a list" where
  "slice_to m xs = (if 0 \<le> m then take (nat m) xs else take (length xs - nat (- m)) xs)"

text \<open>
  \<open>xs.sort(key=k, reverse=True)\<close>: Python's sort is stable, also with \<open>reverse=True\<close>
  (elements with equal keys keep their order), so the result is the stable sort by
  descending key.
\<close>

definition sort_reverse :: "('a \<Rightarrow> int) \<Rightarrow> 'a list \<Rightarrow> 'a list" where
  "sort_reverse k xs = sort_key (\<lambda>x. - k x) xs"

section \<open>Data model\<close>

text \<open>
  An image as \<open>extract_image_info\<close> returns it, and as \<open>extract_images_from_website\<close>
  stores it once its download was accepted (with \<open>local_path\<close> and \<open>description\<close>).
  The metadata dictionary built by \<open>extract_website_content\<close>.  A key that a path of the
  function does not set is \<open>None\<close> here (\<open>md_images\<close>, \<open>md_description\<close>, ...); the
  value of \<open>title\<close> may itself be Python's \<open>None\<close> (\<open>soup.title.string\<close>).
\<close>

record image_info =
  img_url :: string
  alt_text :: string
  caption :: string
  heading :: string
  surrounding_text :: string

record image = image_info +
  local_path :: string
  description :: string

record metadata =
  md_title :: "string option"
  md_authors :: "string list option"
  md_publish_date :: "string option"
  md_url :: string
  md_domain :: string
  md_description :: "string option"
  md_keywords :: "string option"
  md_images :: "image list option"

text \<open>A langchain \<open>Document\<close>: the chunk and the metadata the loop attaches to it.\<close>

record document =
  page_content :: string
  doc_source :: string
  doc_domain :: string
  doc_title :: "string option"
  doc_section :: string
  doc_url :: string
  doc_chunk_id :: nat

section \<open>Section label of a chunk (url submit handler, lines 864-892)\<close>

text \<open>
  The \<open>if\<close>/\<open>elif\<close> chain of the document loop: the first marker found in the chunk,
  in the order of the chain, gives the label; no marker gives \<open>unknown\<close>.
\<close>

definition section_label :: "string \<Rightarrow> string" where
  "section_label chunk =
     (if str_in ''TITLE:'' chunk then ''title''
      else if str_in ''DESCRIPTION:'' chunk then ''description''
      else if str_in ''HEADINGS:'' chunk then ''headings''
      else if str_in ''MAIN CONTENT:'' chunk then ''main_content''
      else if str_in ''TABLES:'' chunk then ''tables''
      else if str_in ''LISTS:'' chunk then ''lists''
      else ''unknown'')"

text \<open>
  Lines 864-892.  \<open>dname\<close> is the value of \<open>get_domain(url)\<close>; the loop runs over
  \<open>enumerate(chunks)\<close>.
\<close>

definition make_document :: "string \<Rightarrow> string \<Rightarrow> metadata \<Rightarrow> nat \<times> string \<Rightarrow> document" where
  "make_document dname url md p =
     \<lparr>page_content = snd p, doc_source = url, doc_domain = dname, doc_title = md_title md,
      doc_section = section_label (snd p), doc_url = url, doc_chunk_id = fst p\<rparr>"

definition make_documents :: "string \<Rightarrow> string \<Rightarrow> metadata \<Rightarrow> string list \<Rightarrow> document list" where
  "make_documents dname url md chunks = map (make_document dname url md) (enumerate 0 chunks)"


section \<open>Image relevance (lines 342-373)\<close>

text \<open>\<open>set(s.lower().split())\<close>.\<close>

definition terms_of :: "string \<Rightarrow> string set" where
  "terms_of s = set (split (lower s))"

text \<open>The body of the loop over \<open>metadata['images']\<close>: the score of one image.\<close>

definition image_score :: "string \<Rightarrow> image \<Rightarrow> int" where
  "image_score query img =
     (let query_terms = terms_of query;
          s1 = (if alt_text img \<noteq> []
                then int (card (query_terms \<inter> terms_of (alt_text img))) * 2 else 0);
          s2 = s1 + (if caption img \<noteq> []
                then int (card (query_terms \<inter> terms_of (caption img))) * 2 else 0);
          s3 = s2 + (if heading img \<noteq> []
                then int (card (query_terms \<inter> terms_of (heading img))) * 3 else 0);
          s4 = s3 + (if surrounding_text img \<noteq> []
                then int (card (query_terms \<inter> terms_of (surrounding_text img))) else 0)
      in s4)"

text \<open>The loop: the list \<open>relevant_images\<close> of pairs \<open>(img, score)\<close> with \<open>score > 0\<close>.\<close>

fun scored_images :: "string \<Rightarrow> image list \<Rightarrow> (image \<times> int) list" where
  "scored_images query [] = []"
| "scored_images query (img # imgs) =
     (let score = image_score query img
      in if score > 0 then (img, score) # scored_images query imgs
         else scored_images query imgs)"

text \<open>
  \<open>find_relevant_images(query, metadata, max_images)\<close>.  The argument \<open>metadata\<close> is
  \<open>None\<close> for the empty dictionary that the caller passes when the source has no
  metadata (\<open>website_metadata.get(url, {})\<close>); \<open>md_images\<close> is \<open>None\<close> when the dictionary
  has no key \<open>images\<close>.
\<close>

definition find_relevant_images :: "string \<Rightarrow> metadata option \<Rightarrow> int \<Rightarrow> image list" where
  "find_relevant_images query metadata max_images =
     (case metadata of
        None \<Rightarrow> []
      | Some md \<Rightarrow>
          (case md_images md of
             None \<Rightarrow> []
           | Some [] \<Rightarrow> []
           | Some imgs \<Rightarrow>
               map fst (slice_to max_images (sort_reverse snd (scored_images query imgs)))))"

text \<open>
  The ranking as the specification words it: the weighted overlap of the lowercase word
  sets, and the images of positive score in descending order of score, ties in their
  original order, cut at the limit.
\<close>

definition spec_score :: "string \<Rightarrow> image \<Rightarrow> int" where
  "spec_score question img =
     2 * int (card (terms_of question \<inter> terms_of (alt_text img)))
     + 2 * int (card (terms_of question \<inter> terms_of (caption img)))
     + 3 * int (card (terms_of question \<inter> terms_of (heading img)))
     + 1 * int (card (terms_of question \<inter> terms_of (surrounding_text img)))"

definition spec_rank :: "string \<Rightarrow> image list \<Rightarrow> nat \<Rightarrow> image list" where
  "spec_rank question imgs limit =
     take limit (sort_key (\<lambda>img. - spec_score question img)
                   (filter (\<lambda>img. spec_score question img \<noteq> 0) imgs))"

text \<open>The images a metadata dictionary holds (none when the key or the dictionary is missing).\<close>

definition images_of :: "metadata option \<Rightarrow> image list" where
  "images_of metadata =
     (case metadata of None \<Rightarrow> [] | Some md \<Rightarrow> (case md_images md of None \<Rightarrow> [] | Some imgs \<Rightarrow> imgs))"

text \<open>
  An example source with four cached images, used to evaluate the ranking: for the
  question \<open>Show me cat photo\<close> the scores are 2, 6, 0 and 2.
\<close>

definition pets_metadata :: metadata where
  "pets_metadata =
     \<lparr>md_title = Some ''Pets'', md_authors = None, md_publish_date = None,
      md_url = ''https://pets.example'', md_domain = ''pets.example'', md_description = None,
      md_keywords = None,
      md_images = Some
        [\<lparr>img_url = ''a.png'', alt_text = ''A Cat'', caption = '''', heading = '''',
         surrounding_text = '''', local_path = ''image_cache/a.png'', description = ''A Cat''\<rparr>,
         \<lparr>img_url = ''b.png'', alt_text = '''', caption = '''', heading = ''Cat photo'',
         surrounding_text = '''', local_path = ''image_cache/b.png'', description = ''Cat photo''\<rparr>,
         \<lparr>img_url = ''c.png'', alt_text = '''', caption = ''a dog'', heading = '''',
         surrounding_text = '''', local_path = ''image_cache/c.png'', description = ''a dog''\<rparr>,
         \<lparr>img_url = ''d.png'', alt_text = ''PHOTO'', caption = '''', heading = '''',
         surrounding_text = ''nothing here'', local_path = ''image_cache/d.png'', description = ''PHOTO''\<rparr>]\<rparr>"

section \<open>The libraries and the network\<close>

text \<open>
  \<open>app.py\<close> calls libraries (urllib, hashlib, os.path, PIL, newspaper, BeautifulSoup,
  langchain, Chroma, re) and the network (requests).  Their results are parameters of
  the model, collected in the record \<open>world\<close>.  A network call, and a library call
  that can raise on the values the source passes to it, has an outcome that says
  whether it raised; the other library calls are functions of their arguments.
\<close>

text \<open>The fields of \<open>urlparse(url)\<close> that the source reads.\<close>

record url_parts =
  up_scheme :: string
  up_netloc :: string
  up_path :: string

text \<open>
  The response of \<open>requests.get(image_url, stream=True)\<close>: whether \<open>raise_for_status\<close>
  passes, the two headers that are read (\<open>None\<close>: the header is missing), the bytes that
  \<open>iter_content\<close> delivers and whether the stream ends without an exception.
\<close>

record response =
  resp_status_ok :: bool
  resp_content_type :: "string option"
  resp_content_length :: "string option"
  resp_body :: string
  resp_stream_ok :: bool

text \<open>
  What \<open>extract_image_info\<close> reads from an \<open><img>\<close> element: the attributes \<open>src\<close> and
  \<open>alt\<close>, the text of a \<open>figcaption\<close> found under the parent (if any), for each ancestor
  from the parent upwards the texts of the \<open>h1\<close>-\<open>h6\<close> elements below it in document
  order, and the serialisation \<open>str(image_element)\<close>.
\<close>

record img_element =
  el_src :: "string option"
  el_alt :: "string option"
  el_figcaption :: "string option"
  el_ancestor_headings :: "string list list"
  el_str :: string

text \<open>The result of \<open>Article(url)\<close>, \<open>download()\<close> and \<open>parse()\<close>.\<close>

record article =
  art_title :: string
  art_text :: string
  art_authors :: "string list"
  art_publish_date :: "string option"

datatype article_outcome =
    ArticleParsed article
  | ArticleException string
  | ArticleOtherError string

text \<open>
  The fetch of the page at the head of each inner \<open>try\<close> block (lines 94-100 and
  183-189): \<open>requests.get(url, headers=headers, timeout=15)\<close>, \<open>raise_for_status()\<close>, the
  parse by \<open>BeautifulSoup\<close> and the \<open>decompose\<close> loop.  \<open>PageFailed\<close> holds the message
  of the exception when one of them raises, \<open>PageFetched\<close> holds \<open>response.text\<close>.
\<close>

datatype page_outcome =
    PageFailed string
  | PageFetched string

record table_el =
  tb_rows :: "string list list"
  tb_caption :: "string option"

record list_el =
  ls_name :: string
  ls_classes :: "string list"
  ls_items :: "string list"

text \<open>
  What the source reads from the parsed page, after the \<open>decompose\<close> loop:
  the \<open>h1\<close>-\<open>h3\<close> elements as pairs of tag name and stripped text, the \<open>content\<close> of the
  description and keywords \<open>meta\<close> tags (\<open>None\<close> when the tag is missing), per table the
  stripped texts of the cells of each \<open>tr\<close> and the caption, per \<open>ul\<close>/\<open>ol\<close> its tag name,
  \<open>class\<close> list and stripped item texts, the \<open>img\<close> elements, \<open>soup.title\<close> with its
  \<open>.string\<close> (which may be Python's \<open>None\<close>), and \<open>soup.body.get_text()\<close>.
\<close>

record soup =
  sp_headings :: "(string \<times> string) list"
  sp_meta_description :: "string option"
  sp_meta_keywords :: "string option"
  sp_tables :: "table_el list"
  sp_lists :: "list_el list"
  sp_imgs :: "img_element list"
  sp_title :: "string option option"
  sp_body_text :: "string option"

text \<open>
  A Chroma index: the two searches the chat handler calls,
  \<open>max_marginal_relevance_search(q, k=8, fetch_k=15, lambda_mult=0.7)\<close> and
  \<open>similarity_search(q, k=8)\<close>.  The first is called inside a \<open>try\<close> with a bare
  \<open>except\<close>: \<open>None\<close> when it raises.  The second is not guarded: \<open>Inl\<close> the message of
  the exception when it raises.
\<close>

record vectordb =
  vdb_mmr_search :: "string \<Rightarrow> document list option"
  vdb_similarity_search :: "string \<Rightarrow> string + document list"

record message =
  msg_role :: string
  msg_content :: string

text \<open>
  \<^item> \<open>urlparse\<close>: \<open>urllib.parse.urlparse\<close>.  Python's function raises \<open>ValueError\<close> on a
    few malformed URLs; \<open>is_valid_url\<close> catches it and answers \<open>False\<close>, and every
    other call of \<open>urlparse\<close> in \<open>app.py\<close> is on a URL that \<open>is_valid_url\<close> has accepted
    (lines 66, 269, 847).  Here \<open>urlparse\<close> gives empty parts for such a URL, so that
    \<open>is_valid_url\<close> is \<open>False\<close> on it, as in the source.
  \<^item> \<open>urljoin base u\<close>: \<open>urllib.parse.urljoin\<close>.  It raises \<open>ValueError\<close> on a
    malformed reference such as \<open>//[x\<close>, and line 267 calls it outside any \<open>try\<close> of
    \<open>extract_image_info\<close>: \<open>Inl\<close> the message when it raises, \<open>Inr\<close> the joined URL.
  \<^item> \<open>md5_hexdigest\<close> (\<open>hashlib.md5(s.encode()).hexdigest()\<close>),
    \<open>splitext_ext\<close> (\<open>os.path.splitext(path)[1]\<close>): library functions.
  \<^item> \<open>http_get_image\<close>: the image download; \<open>None\<close> when \<open>requests.get\<close> raises.
  \<^item> \<open>image_size\<close>: \<open>Image.open(path).size\<close> as a function of the bytes of the file;
    \<open>None\<close> when PIL raises.
  \<^item> \<open>article_fetch\<close>, \<open>http_get_page\<close>: the two fetches of a page.
  \<^item> \<open>soup_parse tags text\<close>: what the source reads from
    \<open>BeautifulSoup(text, 'html.parser')\<close> after every element with a tag in \<open>tags\<close> has
    been decomposed, for a page that \<open>http_get_page\<close> fetched.
  \<^item> \<open>split_text chunk_size chunk_overlap content\<close>: the
    \<open>RecursiveCharacterTextSplitter\<close> with the separators of line 857; \<open>Inl\<close> the
    message when it raises.
  \<^item> \<open>chroma_from_documents\<close>: the embedding model and \<open>Chroma.from_documents\<close>; \<open>Inl\<close>
    the message when one of them raises.
  \<^item> \<open>re_search_about s\<close>: group 1 of
    \<open>re.search(r"about\s+(.+?)(?:\s+in|\s+on|\s+at|\s+\?|$)", s)\<close>, \<open>None\<close> without a match.
  \<^item> \<open>groq_post prompt history temperature max_tokens\<close>: the answer text that the POST
    of \<open>query_groq\<close> yields; \<open>None\<close> when the request or the decoding raises.
\<close>

record world =
  urlparse :: "string \<Rightarrow> url_parts"
  urljoin :: "string \<Rightarrow> string \<Rightarrow> string + string"
  md5_hexdigest :: "string \<Rightarrow> string"
  splitext_ext :: "string \<Rightarrow> string"
  http_get_image :: "string \<Rightarrow> response option"
  image_size :: "string \<Rightarrow> (int \<times> int) option"
  article_fetch :: "string \<Rightarrow> article_outcome"
  http_get_page :: "string \<Rightarrow> page_outcome"
  soup_parse :: "string list \<Rightarrow> string \<Rightarrow> soup"
  split_text :: "int \<Rightarrow> int \<Rightarrow> string \<Rightarrow> string + string list"
  chroma_from_documents :: "document list \<Rightarrow> string \<Rightarrow> string + vectordb"
  re_search_about :: "string \<Rightarrow> string option"
  groq_post :: "string \<Rightarrow> message list \<Rightarrow> real \<Rightarrow> int \<Rightarrow> string option"

text \<open>Python exceptions: the class that the handlers distinguish and the message.\<close>

datatype exn =
    ValueError string
  | KeyError string
  | Error string

text \<open>\<open>str(e)\<close>; for a \<open>KeyError\<close> it is the \<open>repr\<close> of the key.\<close>

fun exn_str :: "exn \<Rightarrow> string" where
  "exn_str (ValueError m) = m"
| "exn_str (KeyError k) = [CHR 0x27] @ k @ [CHR 0x27]"
| "exn_str (Error m) = m"

section \<open>URL helpers (lines 38-55)\<close>

definition get_domain :: "world \<Rightarrow> string \<Rightarrow> string" where
  "get_domain W url = up_netloc (urlparse W url)"

definition format_source_name :: "world \<Rightarrow> string \<Rightarrow> string" where
  "format_source_name W url = get_domain W url"

definition is_valid_url :: "world \<Rightarrow> string \<Rightarrow> bool" where
  "is_valid_url W url = (up_scheme (urlparse W url) \<noteq> [] \<and> up_netloc (urlparse W url) \<noteq> [])"

section \<open>Image handling (lines 212-340)\<close>

definition CACHE_DIR :: string where
  "CACHE_DIR = ''image_cache''"

text \<open>\<open>os.path.join(a, b)\<close> for two components, on POSIX.\<close>

definition path_join :: "string \<Rightarrow> string \<Rightarrow> string" where
  "path_join a b =
     (if startswith b ''/'' then b
      else if a = [] \<or> last a = CHR ''/'' then a @ b
      else a @ ''/'' @ b)"

definition generate_image_filename :: "world \<Rightarrow> string \<Rightarrow> string \<Rightarrow> string" where
  "generate_image_filename W url image_url =
     (let base = take 10 (md5_hexdigest W url);
          img_hash = take 8 (md5_hexdigest W image_url);
          path = up_path (urlparse W image_url);
          ext = lower (splitext_ext W path);
          ext' = (if ext = [] \<or> ext \<notin> set [''.jpg'', ''.jpeg'', ''.png'', ''.gif'', ''.webp'']
                  then ''.jpg'' else ext)
      in base @ ''_'' @ img_hash @ ext')"

text \<open>
  \<open>int(s)\<close> on an ASCII string: surrounding whitespace (space, tab, newline, vertical
  tab, form feed, carriage return) is dropped, a sign may come first, then decimal
  digits, single underscores allowed between digits.  \<open>None\<close> is Python's
  \<open>ValueError\<close>.
\<close>

definition is_int_space :: "char \<Rightarrow> bool" where
  "is_int_space c = (c \<in> set [CHR 0x20, CHR 0x09, CHR 0x0A, CHR 0x0B, CHR 0x0C, CHR 0x0D])"

definition is_digit :: "char \<Rightarrow> bool" where
  "is_digit c = (c \<in> set ''0123456789'')"

definition digit_val :: "char \<Rightarrow> nat" where
  "digit_val c = (case map_of (zip ''0123456789'' [0, 1, 2, 3, 4, 5, 6, 7, 8, 9]) c of
                    Some d \<Rightarrow> d | None \<Rightarrow> 0)"

fun parse_digits :: "nat \<Rightarrow> string \<Rightarrow> nat option" where
  "parse_digits acc [] = Some acc"
| "parse_digits acc (c # cs) =
     (if is_digit c then parse_digits (10 * acc + digit_val c) cs
      else if c = CHR ''_'' \<and> cs \<noteq> [] \<and> is_digit (hd cs) then parse_digits acc cs
      else None)"

definition parse_unsigned :: "string \<Rightarrow> nat option" where
  "parse_unsigned s = (case s of [] \<Rightarrow> None
                       | c # cs \<Rightarrow> if is_digit c then parse_digits 0 s else None)"

definition py_int :: "string \<Rightarrow> int option" where
  "py_int s =
     (case rev (dropWhile is_int_space (rev (dropWhile is_int_space s))) of
        [] \<Rightarrow> None
      | c # cs \<Rightarrow>
          if c = CHR ''-'' then map_option (\<lambda>n. - int n) (parse_unsigned cs)
          else if c = CHR ''+'' then map_option int (parse_unsigned cs)
          else map_option int (parse_unsigned (c # cs)))"

text \<open>The image cache directory: the bytes stored under each path.\<close>

type_synonym cache = "string \<rightharpoonup> string"

text \<open>
  \<open>download_and_save_image(image_url, filename)\<close>: the returned path (\<open>None\<close> as in
  Python) and the cache afterwards.  Every exception inside the function is caught by
  the outer \<open>except\<close>, which returns \<open>None\<close>: a failed request, a failed status, a
  \<open>Content-Length\<close> that \<open>int\<close> rejects, a stream that breaks (the file written so far
  stays in the cache).  A missing \<open>Content-Type\<close> reads as \<open>''\<close>, a missing
  \<open>Content-Length\<close> as \<open>0\<close>.
\<close>

definition download_and_save_image ::
    "world \<Rightarrow> cache \<Rightarrow> string \<Rightarrow> string \<Rightarrow> string option \<times> cache" where
  "download_and_save_image W fs image_url filename =
     (case http_get_image W image_url of
        None \<Rightarrow> (None, fs)
      | Some r \<Rightarrow>
          if \<not> resp_status_ok r then (None, fs)
          else
            let content_type = (case resp_content_type r of None \<Rightarrow> [] | Some v \<Rightarrow> v) in
            if \<not> startswith content_type ''image/'' then (None, fs)
            else
              (case (case resp_content_length r of None \<Rightarrow> Some 0 | Some v \<Rightarrow> py_int v) of
                 None \<Rightarrow> (None, fs)
               | Some n \<Rightarrow>
                   if n > 5 * 1024 * 1024 then (None, fs)
                   else
                     let img_path = path_join CACHE_DIR filename;
                         fs1 = fs(img_path \<mapsto> resp_body r) in
                     if \<not> resp_stream_ok r then (None, fs1)
                     else
                       (case image_size W (resp_body r) of
                          Some (width, height) \<Rightarrow>
                            if width < 50 \<or> height < 50 \<or> width > 3000 \<or> height > 3000
                            then (None, fs1(img_path := None))
                            else (Some img_path, fs1)
                        | None \<Rightarrow> (None, fs1(img_path := None)))))"

text \<open>\<open>haystack.find(needle)\<close>: the first index, or \<open>-1\<close>.\<close>

fun find_from :: "nat \<Rightarrow> string \<Rightarrow> string \<Rightarrow> int" where
  "find_from i needle [] = (if needle = [] then int i else - 1)"
| "find_from i needle (c # cs) =
     (if startswith (c # cs) needle then int i else find_from (Suc i) needle cs)"

definition str_find :: "string \<Rightarrow> string \<Rightarrow> int" where
  "str_find haystack needle = find_from 0 needle haystack"

text \<open>\<open>s[a:b]\<close> for \<open>a, b \<ge> 0\<close>.\<close>

definition slice :: "int \<Rightarrow> int \<Rightarrow> 'a list \<Rightarrow> 'a list" where
  "slice a b xs = drop (nat a) (take (nat b) xs)"

text \<open>
  The loop over at most five ancestors (lines 284-293): the first heading of the
  nearest ancestor that has one.
\<close>

fun nearest_heading :: "string list list \<Rightarrow> string" where
  "nearest_heading [] = []"
| "nearest_heading (heading_tags # ancestors) =
     (case heading_tags of [] \<Rightarrow> nearest_heading ancestors | h # _ \<Rightarrow> h)"

definition skip_markers :: "string list" where
  "skip_markers = [''icon'', ''logo'', ''pixel.'', ''tracker'', ''advertisement'', ''ad.'', ''/ad/'']"

text \<open>
  \<open>extract_image_info\<close>: the \<open>ValueError\<close> of \<open>urljoin\<close> leaves the function; otherwise
  \<open>None\<close> (the element is skipped) or the dictionary.
\<close>

definition extract_image_info ::
    "world \<Rightarrow> img_element \<Rightarrow> string \<Rightarrow> string \<Rightarrow> exn + image_info option" where
  "extract_image_info W image_element page_text url =
     (let src = (case el_src image_element of None \<Rightarrow> [] | Some v \<Rightarrow> v) in
      case (if src \<noteq> [] \<and> \<not> (startswith src ''http://'' \<or> startswith src ''https://'')
            then urljoin W url src else Inr src) of
        Inl m \<Rightarrow> Inl (ValueError m)
      | Inr image_url \<Rightarrow>
          Inr (if image_url = [] \<or> \<not> is_valid_url W image_url then None
               else if list_ex (\<lambda>skip. str_in skip (lower image_url)) skip_markers then None
               else
                 let alt = (case el_alt image_element of None \<Rightarrow> [] | Some v \<Rightarrow> v);
                     cap = (case el_figcaption image_element of None \<Rightarrow> [] | Some v \<Rightarrow> v);
                     hd_text = nearest_heading (take 5 (el_ancestor_headings image_element));
                     img_str = el_str image_element;
                     start_idx = max 0 (str_find page_text img_str - 100);
                     end_idx = min (int (length page_text))
                                   (str_find page_text img_str + int (length img_str) + 100);
                     surrounding = strip (slice start_idx end_idx page_text)
                 in Some \<lparr>img_url = image_url, alt_text = alt, caption = cap,
                           heading = hd_text, surrounding_text = surrounding\<rparr>))"

text \<open>\<open>a or b or c or d\<close> on strings: the first non-empty one, else the last.\<close>

definition describe_image :: "world \<Rightarrow> string \<Rightarrow> image_info \<Rightarrow> string" where
  "describe_image W url info =
     (if caption info \<noteq> [] then caption info
      else if alt_text info \<noteq> [] then alt_text info
      else if heading info \<noteq> [] then heading info
      else ''Image from '' @ get_domain W url)"

definition accepted_image :: "world \<Rightarrow> string \<Rightarrow> image_info \<Rightarrow> string \<Rightarrow> image" where
  "accepted_image W url info path =
     \<lparr>img_url = img_url info, alt_text = alt_text info, caption = caption info,
      heading = heading info, surrounding_text = surrounding_text info,
      local_path = path, description = describe_image W url info\<rparr>"

text \<open>
  The loop of \<open>extract_images_from_website\<close> over \<open>soup.find_all('img')\<close>, with its
  variables \<open>images_data\<close> and \<open>image_count\<close> and the cache as explicit state.  An
  exception of \<open>extract_image_info\<close> (line 322) leaves the loop and the function; the
  files written before it stay in the cache.
\<close>

fun images_loop ::
    "world \<Rightarrow> string \<Rightarrow> string \<Rightarrow> img_element list \<Rightarrow> cache \<Rightarrow> image list \<Rightarrow> nat
     \<Rightarrow> (exn + image list) \<times> cache" where
  "images_loop W url page_text [] fs images_data image_count = (Inr images_data, fs)"
| "images_loop W url page_text (img # img_elements) fs images_data image_count =
     (if image_count \<ge> 10 then (Inr images_data, fs)
      else
        (case extract_image_info W img page_text url of
           Inl e \<Rightarrow> (Inl e, fs)
         | Inr None \<Rightarrow> images_loop W url page_text img_elements fs images_data image_count
         | Inr (Some image_info) \<Rightarrow>
             let filename = generate_image_filename W url (img_url image_info);
                 (local_path, fs') = download_and_save_image W fs (img_url image_info) filename
             in (case local_path of
                   None \<Rightarrow> images_loop W url page_text img_elements fs' images_data image_count
                 | Some p \<Rightarrow>
                     if p = [] then
                       images_loop W url page_text img_elements fs' images_data image_count
                     else
                       images_loop W url page_text img_elements fs'
                         (images_data @ [accepted_image W url image_info p])
                         (image_count + 1))))"

definition extract_images_from_website ::
    "world \<Rightarrow> cache \<Rightarrow> string \<Rightarrow> img_element list \<Rightarrow> string
     \<Rightarrow> (exn + image list) \<times> cache" where
  "extract_images_from_website W fs url img_elements page_text =
     images_loop W url page_text img_elements fs [] 0"

text \<open>
  The three checks of \<open>download_and_save_image\<close> as predicates of the response and of
  the decoded size.
\<close>

definition content_type_ok :: "response \<Rightarrow> bool" where
  "content_type_ok r =
     (case resp_content_type r of None \<Rightarrow> False | Some v \<Rightarrow> startswith v ''image/'')"

definition content_length_ok :: "response \<Rightarrow> bool" where
  "content_length_ok r =
     (case resp_content_length r of
        None \<Rightarrow> True
      | Some v \<Rightarrow> (case py_int v of None \<Rightarrow> False | Some n \<Rightarrow> n \<le> 5 * 1024 * 1024))"

definition dimensions_ok :: "world \<Rightarrow> response \<Rightarrow> bool" where
  "dimensions_ok W r =
     (case image_size W (resp_body r) of
        None \<Rightarrow> False
      | Some (width, height) \<Rightarrow> 50 \<le> width \<and> width \<le> 3000 \<and> 50 \<le> height \<and> height \<le> 3000)"

text \<open>An image URL whose download passes the three checks.\<close>

definition download_accepted :: "world \<Rightarrow> string \<Rightarrow> bool" where
  "download_accepted W image_url =
     (case http_get_image W image_url of
        None \<Rightarrow> False
      | Some r \<Rightarrow> resp_status_ok r \<and> resp_stream_ok r
                 \<and> content_type_ok r \<and> content_length_ok r \<and> dimensions_ok W r)"

text \<open>
  A world in which every fetch fails and every library function returns an empty
  result; the examples override the fields they need.
\<close>

definition offline_world :: world where
  "offline_world =
     \<lparr>urlparse = (\<lambda>u. \<lparr>up_scheme = [], up_netloc = [], up_path = []\<rparr>),
      urljoin = (\<lambda>base u. Inr u),
      md5_hexdigest = (\<lambda>s. ''00000000000000000000000000000000''),
      splitext_ext = (\<lambda>p. []),
      http_get_image = (\<lambda>u. None),
      image_size = (\<lambda>b. None),
      article_fetch = (\<lambda>u. ArticleOtherError ''offline''),
      http_get_page = (\<lambda>u. PageFailed ''offline''),
      soup_parse = (\<lambda>tags t. \<lparr>sp_headings = [], sp_meta_description = None,
                      sp_meta_keywords = None, sp_tables = [], sp_lists = [], sp_imgs = [],
                      sp_title = None, sp_body_text = None\<rparr>),
      split_text = (\<lambda>chunk_size chunk_overlap content. Inr []),
      chroma_from_documents = (\<lambda>docs path. Inl ''offline''),
      re_search_about = (\<lambda>s. None),
      groq_post = (\<lambda>prompt history temperature max_tokens. None)\<rparr>"

text \<open>
  For the statement of what the loop returns: the candidates that \<open>extract_image_info\<close>
  keeps, in the order of the elements, and the entry that the loop appends for a
  candidate whose download is accepted.
\<close>

definition kept_info :: "world \<Rightarrow> string \<Rightarrow> string \<Rightarrow> img_element \<Rightarrow> image_info option" where
  "kept_info W url page_text el =
     (case extract_image_info W el page_text url of Inl e \<Rightarrow> None | Inr r \<Rightarrow> r)"

definition image_candidates :: "world \<Rightarrow> string \<Rightarrow> string \<Rightarrow> img_element list \<Rightarrow> image_info list" where
  "image_candidates W url page_text img_elements =
     List.map_filter (kept_info W url page_text) img_elements"

definition cached_image :: "world \<Rightarrow> string \<Rightarrow> image_info \<Rightarrow> image" where
  "cached_image W url info =
     accepted_image W url info
       (path_join CACHE_DIR (generate_image_filename W url (img_url info)))"

text \<open>
  Examples.  \<open>photo_world\<close>: every URL parses as an \<open>https\<close> URL of \<open>site.example\<close>, every
  image download answers with content type \<open>image/png\<close> and no \<open>Content-Length\<close>; the
  image at \<open>https://site.example/tiny.png\<close> decodes to 10 x 10 pixels, every other one
  to 640 x 480.  \<open>six_mib_world\<close>: as \<open>photo_world\<close>, but every response declares
  \<open>Content-Length: 6291456\<close>.  \<open>unsized_world\<close>: as \<open>photo_world\<close>, but every body has
  6291456 bytes.  \<open>bracket_world\<close>: as \<open>photo_world\<close>, but \<open>urljoin\<close> raises on the
  reference \<open>//[x\<close>, as Python's does.
\<close>

definition img_tag :: "string \<Rightarrow> img_element" where
  "img_tag src =
     \<lparr>el_src = Some src, el_alt = Some ''a photo'', el_figcaption = None,
      el_ancestor_headings = [[], [''Gallery'']], el_str = ''<img src=\"'' @ src @ ''\"/>''\<rparr>"

definition photo_response :: "string \<Rightarrow> response" where
  "photo_response u =
     \<lparr>resp_status_ok = True, resp_content_type = Some ''image/png'',
      resp_content_length = None,
      resp_body = (if u = ''https://site.example/tiny.png'' then ''tiny'' else ''data''),
      resp_stream_ok = True\<rparr>"

definition photo_world :: world where
  "photo_world =
     offline_world
       \<lparr>urlparse := (\<lambda>u. \<lparr>up_scheme = ''https'', up_netloc = ''site.example'', up_path = u\<rparr>),
        http_get_image := (\<lambda>u. Some (photo_response u)),
        image_size := (\<lambda>b. if b = ''tiny'' then Some (10, 10) else Some (640, 480))\<rparr>"

definition bracket_world :: world where
  "bracket_world =
     photo_world
       \<lparr>urljoin := (\<lambda>base u. if u = ''//[x'' then Inl ''Invalid IPv6 URL'' else Inr u)\<rparr>"

definition six_mib_world :: world where
  "six_mib_world =
     photo_world
       \<lparr>http_get_image :=
          (\<lambda>u. Some ((photo_response u)\<lparr>resp_content_length := Some ''6291456''\<rparr>))\<rparr>"

definition unsized_world :: world where
  "unsized_world =
     photo_world
       \<lparr>http_get_image :=
          (\<lambda>u. Some ((photo_response u)\<lparr>resp_body := replicate 6291456 (CHR ''x'')\<rparr>)),
        image_size := (\<lambda>b. Some (640, 480))\<rparr>"

section \<open>Content extraction (lines 58-209)\<close>

text \<open>\<open>re.sub(c+, c, text)\<close> for one character \<open>c\<close>: every run of \<open>c\<close> becomes one \<open>c\<close>.\<close>

fun squeeze :: "char \<Rightarrow> string \<Rightarrow> string" where
  "squeeze c [] = []"
| "squeeze c [x] = [x]"
| "squeeze c (x # y # r) = (if x = c \<and> y = c then squeeze c (y # r) else x # squeeze c (y # r))"

definition clean_text :: "string \<Rightarrow> string" where
  "clean_text t = strip (squeeze (CHR '' '') (squeeze nl t))"

definition char_upper :: "char \<Rightarrow> char" where
  "char_upper c =
     (case map_of (zip ''abcdefghijklmnopqrstuvwxyz'' ''ABCDEFGHIJKLMNOPQRSTUVWXYZ'') c of
        Some d \<Rightarrow> d | None \<Rightarrow> c)"

definition upper :: "string \<Rightarrow> string" where
  "upper s = map char_upper s"

text \<open>\<open>sep.join(xs)\<close>.\<close>

fun join :: "string \<Rightarrow> string list \<Rightarrow> string" where
  "join sep [] = []"
| "join sep [x] = x"
| "join sep (x # y # r) = x @ sep @ join sep (y # r)"

text \<open>\<open>str(n)\<close> for a natural number, as the f-strings print \<open>i+1\<close>.\<close>

fun digits_of :: "nat \<Rightarrow> nat \<Rightarrow> string" where
  "digits_of 0 n = []"
| "digits_of (Suc fuel) n =
     (if n < 10 then [''0123456789'' ! n]
      else digits_of fuel (n div 10) @ [''0123456789'' ! (n mod 10)])"

definition str_of_nat :: "nat \<Rightarrow> string" where
  "str_of_nat n = digits_of (Suc n) n"

text \<open>
  The heading loop (lines 102-107), \<open>headings\<close> being the list built so far.
  (\<open>len(text)\<close> counts code points; \<open>length\<close> agrees with it on ASCII text.)
\<close>

fun headings_loop :: "(string \<times> string) list \<Rightarrow> string list \<Rightarrow> string list" where
  "headings_loop [] headings = headings"
| "headings_loop ((tag_name, t) # hs) headings =
     (if t \<noteq> [] \<and> length t > 3 \<and> t \<notin> set headings
      then headings_loop hs (headings @ [upper tag_name @ '': '' @ t])
      else headings_loop hs headings)"

text \<open>
  The table loop (lines 115-132) over \<open>enumerate(soup.find_all('table'))\<close>, \<open>i\<close> being
  the index of the first table of the list.
\<close>

fun rows_text :: "string list list \<Rightarrow> string" where
  "rows_text [] = []"
| "rows_text (row # rows) = join '' | '' row @ [nl] @ rows_text rows"

fun tables_loop :: "nat \<Rightarrow> table_el list \<Rightarrow> string list" where
  "tables_loop i [] = []"
| "tables_loop i (tbl # tbls) =
     (let table_data = filter (\<lambda>row. row \<noteq> []) (tb_rows tbl)
      in if table_data \<noteq> [] then
           (let table_title =
                  (case tb_caption tbl of
                     None \<Rightarrow> ''Table '' @ str_of_nat (i + 1)
                   | Some cap \<Rightarrow> ''Table '' @ str_of_nat (i + 1) @ '': '' @ cap)
            in (table_title @ [nl] @ rows_text table_data) # tables_loop (i + 1) tbls)
         else tables_loop (i + 1) tbls)"

text \<open>The bullet character U+2022 of line 150, in UTF-8.\<close>

definition bullet :: string where
  "bullet = [CHR 0xE2, CHR 0x80, CHR 0xA2]"

fun items_text :: "string \<Rightarrow> nat \<Rightarrow> string list \<Rightarrow> string" where
  "items_text name idx [] = []"
| "items_text name idx (item # items) =
     (if name = ''ol'' then str_of_nat (idx + 1) @ ''. '' @ item @ [nl]
      else bullet @ '' '' @ item @ [nl]) @ items_text name (idx + 1) items"

text \<open>The list loop (lines 134-151).\<close>

fun lists_loop :: "list_el list \<Rightarrow> string list" where
  "lists_loop [] = []"
| "lists_loop (list_el # els) =
     (if length (ls_items list_el) < 3 then lists_loop els
      else if list_ex (\<lambda>c. c \<in> set (ls_classes list_el)) [''nav'', ''menu'', ''navigation'']
      then lists_loop els
      else if ls_items list_el \<noteq> [] then
        (let list_type = (if ls_name list_el = ''ul'' then ''Bulleted'' else ''Numbered'')
         in (list_type @ '' List:'' @ [nl] @ items_text (ls_name list_el) 0 (ls_items list_el))
            # lists_loop els)
      else lists_loop els)"

text \<open>The assembly of \<open>enhanced_content\<close> (lines 162-174).\<close>

definition assemble_content ::
    "string \<Rightarrow> string \<Rightarrow> string list \<Rightarrow> string \<Rightarrow> string list \<Rightarrow> string list \<Rightarrow> string" where
  "assemble_content title descr headings main_text tables lsts =
     (if title \<noteq> [] then ''TITLE: '' @ title @ [nl, nl] else [])
     @ (if descr \<noteq> [] then ''DESCRIPTION: '' @ descr @ [nl, nl] else [])
     @ (if headings \<noteq> [] then ''HEADINGS:'' @ [nl] @ join [nl] headings @ [nl, nl] else [])
     @ (if main_text \<noteq> [] then ''MAIN CONTENT:'' @ [nl] @ main_text @ [nl, nl] else [])
     @ (if tables \<noteq> [] then ''TABLES:'' @ [nl] @ join [nl, nl] tables @ [nl, nl] else [])
     @ (if lsts \<noteq> [] then ''LISTS:'' @ [nl] @ join [nl, nl] lsts @ [nl, nl] else [])"

text \<open>\<open>f"TITLE: {title}\n\nMAIN CONTENT:\n{text}"\<close> (lines 179 and 203).\<close>

definition title_and_body :: "string \<Rightarrow> string \<Rightarrow> string" where
  "title_and_body title body = ''TITLE: '' @ title @ [nl, nl] @ ''MAIN CONTENT:'' @ [nl] @ body"

text \<open>How an f-string prints a value that may be \<open>None\<close>.\<close>

definition fmt_opt :: "string option \<Rightarrow> string" where
  "fmt_opt v = (case v of None \<Rightarrow> ''None'' | Some s \<Rightarrow> s)"

definition article_tags :: "string list" where
  "article_tags = [''script'', ''style'', ''noscript'', ''iframe'', ''footer'', ''nav'', ''aside'']"

definition fallback_tags :: "string list" where
  "fallback_tags = [''script'', ''style'', ''noscript'', ''iframe'', ''footer'']"

definition failed_to_extract :: "string \<Rightarrow> string \<Rightarrow> exn" where
  "failed_to_extract url msg = Error (''Failed to extract content from '' @ url @ '': '' @ msg)"

text \<open>
  \<open>extract_website_content(url)\<close>: the exception raised or the pair returned, and the
  image cache afterwards.  The three outcomes of the article reader are the three
  clauses of the outer \<open>try\<close>: its body, \<open>except ArticleException\<close> (the raw-markup
  fallback) and \<open>except Exception\<close>.  The inner \<open>except\<close> clauses (lines 178 and 205)
  catch a failed fetch and an exception of the image extraction alike; on the enriched
  path the metadata has its description and keywords by then (lines 153-156).
\<close>

definition extract_website_content ::
    "world \<Rightarrow> cache \<Rightarrow> string \<Rightarrow> (exn + string \<times> metadata) \<times> cache" where
  "extract_website_content W fs url =
     (if \<not> is_valid_url W url then (Inl (ValueError (''Invalid URL: '' @ url)), fs)
      else
        (case article_fetch W url of
           ArticleParsed a \<Rightarrow>
             (let title = art_title a;
                  main_text = clean_text (art_text a);
                  metadata = \<lparr>md_title = Some title, md_authors = Some (art_authors a),
                              md_publish_date = art_publish_date a, md_url = url,
                              md_domain = get_domain W url, md_description = None,
                              md_keywords = None, md_images = None\<rparr>
              in (case http_get_page W url of
                    PageFetched html \<Rightarrow>
                      (let sp = soup_parse W article_tags html;
                           headings = headings_loop (sp_headings sp) [];
                           descr = (case sp_meta_description sp of None \<Rightarrow> [] | Some v \<Rightarrow> v);
                           keywords = (case sp_meta_keywords sp of None \<Rightarrow> [] | Some v \<Rightarrow> v);
                           tables = tables_loop 0 (sp_tables sp);
                           lsts = lists_loop (sp_lists sp);
                           metadata1 = metadata\<lparr>md_description := Some descr,
                                                  md_keywords := Some keywords\<rparr>
                       in (case extract_images_from_website W fs url (sp_imgs sp) html of
                             (Inr images_data, fs') \<Rightarrow>
                               (Inr (assemble_content title descr headings main_text tables lsts,
                                     metadata1\<lparr>md_images := Some images_data\<rparr>), fs')
                           | (Inl e, fs') \<Rightarrow>
                               (Inr (title_and_body title main_text, metadata1), fs')))
                  | PageFailed e \<Rightarrow> (Inr (title_and_body title main_text, metadata), fs)))
         | ArticleException e \<Rightarrow>
             (case http_get_page W url of
                PageFetched html \<Rightarrow>
                  (let sp = soup_parse W fallback_tags html;
                       title = (case sp_title sp of None \<Rightarrow> Some ''Unknown Title'' | Some s \<Rightarrow> s);
                       body_text = (case sp_body_text sp of None \<Rightarrow> [] | Some b \<Rightarrow> clean_text b)
                   in (case extract_images_from_website W fs url (sp_imgs sp) html of
                         (Inr images_data, fs') \<Rightarrow>
                           (Inr (title_and_body (fmt_opt title) body_text,
                                 \<lparr>md_title = title, md_authors = None,
                                  md_publish_date = None, md_url = url,
                                  md_domain = get_domain W url, md_description = None,
                                  md_keywords = None, md_images = Some images_data\<rparr>), fs')
                       | (Inl e', fs') \<Rightarrow> (Inl (failed_to_extract url (exn_str e')), fs')))
              | PageFailed e' \<Rightarrow> (Inl (failed_to_extract url e'), fs))
         | ArticleOtherError e \<Rightarrow> (Inl (failed_to_extract url e), fs)))"

text \<open>
  Examples.  In each of them every URL parses as an \<open>https\<close> URL.
  \<open>example_world\<close>: the article reader finds a title and a body, the page fetch answers
  with a page without headings, tables, lists or images.
  \<open>blank_world\<close>: the server answers with a blank page: the article reader parses it to
  an empty title and an empty text, and the page has no description, headings, tables,
  lists or images.  \<open>crash_world\<close>: the article reader raises an exception that is not
  an \<open>ArticleException\<close>, while the server answers the page fetch.
  \<open>broken_src_world\<close>: the article reader raises \<open>ArticleException\<close>, the server answers
  the page fetch, and the page has one image whose \<open>src\<close> is \<open>//[x\<close>, on which \<open>urljoin\<close>
  raises.
\<close>

definition example_world :: world where
  "example_world =
     offline_world
       \<lparr>urlparse := (\<lambda>u. \<lparr>up_scheme = ''https'', up_netloc = drop 8 u, up_path = []\<rparr>),
        article_fetch := (\<lambda>u. ArticleParsed
           \<lparr>art_title = ''Example Domain'',
            art_text = ''This domain is for use in illustrative examples.'',
            art_authors = [], art_publish_date = None\<rparr>),
        http_get_page := (\<lambda>u. PageFetched ''<html></html>'')\<rparr>"

definition blank_world :: world where
  "blank_world =
     offline_world
       \<lparr>urlparse := (\<lambda>u. \<lparr>up_scheme = ''https'', up_netloc = drop 8 u, up_path = []\<rparr>),
        article_fetch := (\<lambda>u. ArticleParsed \<lparr>art_title = [], art_text = [], art_authors = [],
                                               art_publish_date = None\<rparr>),
        http_get_page := (\<lambda>u. PageFetched [])\<rparr>"

definition crash_world :: world where
  "crash_world =
     offline_world
       \<lparr>urlparse := (\<lambda>u. \<lparr>up_scheme = ''https'', up_netloc = drop 8 u, up_path = []\<rparr>),
        article_fetch := (\<lambda>u. ArticleOtherError ''boom''),
        http_get_page := (\<lambda>u. PageFetched ''<html><body>Hello</body></html>'')\<rparr>"

definition broken_src_world :: world where
  "broken_src_world =
     offline_world
       \<lparr>urlparse := (\<lambda>u. \<lparr>up_scheme = ''https'', up_netloc = drop 8 u, up_path = []\<rparr>),
        urljoin := (\<lambda>base u. if u = ''//[x'' then Inl ''Invalid IPv6 URL'' else Inr u),
        article_fetch := (\<lambda>u. ArticleException ''Article download failed''),
        http_get_page := (\<lambda>u. PageFetched ''<html><body><img src=\"//[x\"/></body></html>''),
        soup_parse := (\<lambda>tags t.
           \<lparr>sp_headings = [], sp_meta_description = None, sp_meta_keywords = None,
            sp_tables = [], sp_lists = [],
            sp_imgs = [\<lparr>el_src = Some ''//[x'', el_alt = None, el_figcaption = None,
                        el_ancestor_headings = [], el_str = ''<img src=\"//[x\"/>''\<rparr>],
            sp_title = Some (Some ''Gallery''), sp_body_text = Some []\<rparr>)\<rparr>"

section \<open>The url submit handler (lines 821-927)\<close>

definition DB_DIR :: string where
  "DB_DIR = ''chroma_db''"

record chat_entry =
  ce_question :: string
  ce_answer :: string
  ce_sources :: "string list"

text \<open>
  \<open>st.session_state\<close>.  A Python dictionary keeps its keys in insertion order, and an
  assignment to an existing key keeps the key's place: the dictionaries are association
  lists, \<open>d[k] = v\<close> is \<open>AList.update k v d\<close>.
\<close>

record session =
  websites :: "(string \<times> vectordb) list"
  website_metadata :: "(string \<times> metadata) list"
  processing_errors :: "(string \<times> string) list"
  websites_processed :: bool
  chat_history :: "chat_entry list"
  message_history :: "message list"

text \<open>
  The body of the \<open>try\<close> block of the batch loop (lines 847-902) for one URL: the
  exception that leaves it, or the index and the metadata that lines 904-905 store.
  \<open>chunk_size\<close> and \<open>chunk_overlap\<close> are the values of the two sliders.
\<close>

definition index_url ::
    "world \<Rightarrow> int \<Rightarrow> int \<Rightarrow> cache \<Rightarrow> string \<Rightarrow> (exn + vectordb \<times> metadata) \<times> cache" where
  "index_url W chunk_size chunk_overlap fs url =
     (if \<not> is_valid_url W url then (Inl (ValueError ''Invalid URL format''), fs)
      else
        (case extract_website_content W fs url of
           (Inl e, fs') \<Rightarrow> (Inl e, fs')
         | (Inr (content, metadata), fs') \<Rightarrow>
             (case split_text W chunk_size chunk_overlap content of
                Inl m \<Rightarrow> (Inl (Error m), fs')
              | Inr chunks \<Rightarrow>
                  if chunks = [] then (Inl (ValueError ''No content could be extracted''), fs')
                  else
                    (let documents = make_documents (get_domain W url) url metadata chunks;
                         url_hash = md5_hexdigest W url;
                         db_path = path_join DB_DIR url_hash
                     in (case chroma_from_documents W documents db_path of
                           Inl m \<Rightarrow> (Inl (Error m), fs')
                         | Inr vdb \<Rightarrow> (Inr (vdb, metadata), fs'))))))"

text \<open>
  One round of the loop: the \<open>try\<close> block, then either the two assignments of lines
  904-905 or the handler of line 909, which records \<open>str(e)\<close> under the URL.
\<close>

definition process_url ::
    "world \<Rightarrow> int \<Rightarrow> int \<Rightarrow> session \<times> cache \<Rightarrow> string \<Rightarrow> session \<times> cache" where
  "process_url W chunk_size chunk_overlap s url =
     (case index_url W chunk_size chunk_overlap (snd s) url of
        (Inr (vdb, metadata), fs') \<Rightarrow>
          ((fst s)\<lparr>websites := AList.update url vdb (websites (fst s)),
                   website_metadata := AList.update url metadata (website_metadata (fst s))\<rparr>,
           fs')
      | (Inl e, fs') \<Rightarrow>
          ((fst s)\<lparr>processing_errors :=
                      AList.update url (exn_str e) (processing_errors (fst s))\<rparr>,
           fs'))"

text \<open>\<open>s.split(c)\<close> for a one-character separator: the pieces between the separators.\<close>

fun split_on :: "char \<Rightarrow> string \<Rightarrow> string list" where
  "split_on c [] = [[]]"
| "split_on c (x # xs) =
     (if x = c then [] # split_on c xs
      else (case split_on c xs of [] \<Rightarrow> [[x]] | w # ws \<Rightarrow> (x # w) # ws))"

text \<open>Line 822: the stripped, non-empty lines of the text area.\<close>

definition url_list_of :: "string \<Rightarrow> string list" where
  "url_list_of urls = map strip (filter (\<lambda>url. strip url \<noteq> []) (split_on nl urls))"

text \<open>
  The handler from \<open>url_list\<close> on (lines 824-927): an empty list changes nothing;
  otherwise the directories and the three dictionaries are reset, the loop runs over
  the list, and \<open>websites_processed\<close> is set when a source was indexed.
\<close>

definition submit_urls ::
    "world \<Rightarrow> int \<Rightarrow> int \<Rightarrow> session \<times> cache \<Rightarrow> string list \<Rightarrow> session \<times> cache" where
  "submit_urls W chunk_size chunk_overlap s url_list =
     (if url_list = [] then s
      else
        (let st0 = (fst s)\<lparr>websites := [], website_metadata := [], processing_errors := []\<rparr>;
             s1 = foldl (process_url W chunk_size chunk_overlap) (st0, Map.empty) url_list
         in if websites (fst s1) \<noteq> [] then ((fst s1)\<lparr>websites_processed := True\<rparr>, snd s1)
            else s1))"

text \<open>
  What the \<open>try\<close> block yields for a URL; it does not depend on the state of the image
  cache (lemma \<open>index_url_cache_independent\<close>).
\<close>

definition url_outcome :: "world \<Rightarrow> int \<Rightarrow> int \<Rightarrow> string \<Rightarrow> exn + vectordb \<times> metadata" where
  "url_outcome W chunk_size chunk_overlap url =
     fst (index_url W chunk_size chunk_overlap Map.empty url)"

text \<open>The session at the start of the application (lines 766-777).\<close>

definition initial_session :: session where
  "initial_session =
     \<lparr>websites = [], website_metadata = [], processing_errors = [],
      websites_processed = False, chat_history = [], message_history = []\<rparr>"

text \<open>
  Example.  \<open>batch_world\<close>: as \<open>example_world\<close>, but the page at
  \<open>https://blank.example\<close> is blank (empty title and text); the splitter returns the
  whole text as one chunk, and no chunk for the empty text; the index built from a list
  of documents answers every search with its first 8 documents.
\<close>

definition first_docs_index :: "document list \<Rightarrow> vectordb" where
  "first_docs_index docs =
     \<lparr>vdb_mmr_search = (\<lambda>q. Some (take 8 docs)),
      vdb_similarity_search = (\<lambda>q. Inr (take 8 docs))\<rparr>"

definition batch_world :: world where
  "batch_world =
     example_world
       \<lparr>article_fetch := (\<lambda>u.
           if u = ''https://blank.example''
           then ArticleParsed \<lparr>art_title = [], art_text = [], art_authors = [],
                               art_publish_date = None\<rparr>
           else article_fetch example_world u),
        split_text := (\<lambda>chunk_size chunk_overlap content.
           Inr (if content = [] then [] else [content])),
        chroma_from_documents := (\<lambda>docs path. Inr (first_docs_index docs))\<rparr>"

section \<open>The chat handler (lines 1007-1160)\<close>

text \<open>
  The target selection (lines 1020-1025): the loop over the keys of \<open>websites\<close> stops at
  the first URL whose domain occurs in the question, both in lower case.
\<close>

fun find_target :: "world \<Rightarrow> string \<Rightarrow> string list \<Rightarrow> string option" where
  "find_target W user_query [] = None"
| "find_target W user_query (url # urls) =
     (if str_in (lower (get_domain W url)) (lower user_query) then Some url
      else find_target W user_query urls)"

text \<open>
  Line 1027: \<open>[target_website] if target_website else websites.keys()\<close>; \<open>None\<close> and the
  empty string are false.
\<close>

definition websites_to_search :: "world \<Rightarrow> session \<Rightarrow> string \<Rightarrow> string list" where
  "websites_to_search W st user_query =
     (case find_target W user_query (map fst (websites st)) of
        None \<Rightarrow> map fst (websites st)
      | Some target_website \<Rightarrow>
          if target_website \<noteq> [] then [target_website] else map fst (websites st))"

definition summary_terms :: "string list" where
  "summary_terms = [''summary'', ''summarize'', ''what is this website about'', ''overview'']"

definition specific_terms :: "string list" where
  "specific_terms = [''what does'', ''how does'', ''tell me about'', ''specific'']"

definition image_terms :: "string list" where
  "image_terms = [''image'', ''picture'', ''photo'', ''figure'', ''diagram'', ''graph'',
                  ''show me'', ''visual'']"

text \<open>\<open>any(term in user_query.lower() for term in terms)\<close>.\<close>

definition any_term_in :: "string list \<Rightarrow> string \<Rightarrow> bool" where
  "any_term_in terms user_query = list_ex (\<lambda>term. str_in term (lower user_query)) terms"

definition summary_suffix :: string where
  "summary_suffix = '' main content overview summary website purpose''"

definition image_suffix :: string where
  "image_suffix = '' visual visual_content image picture photo figure''"

text \<open>
  The query rewriting (lines 1035-1049): the \<open>if\<close>/\<open>elif\<close> for the summary and the
  specific-topic rewrites, then the separate \<open>if is_image_related\<close>, whose assignment
  starts again from \<open>user_query\<close>.
\<close>

definition rewrite_query :: "world \<Rightarrow> string \<Rightarrow> string" where
  "rewrite_query W user_query =
     (let search_query =
            (if any_term_in summary_terms user_query then user_query @ summary_suffix
             else if any_term_in specific_terms user_query then
               (case re_search_about W (lower user_query) of
                  Some specific_topic \<Rightarrow>
                    user_query @ '' '' @ specific_topic @ '' details information''
                | None \<Rightarrow> user_query)
             else user_query);
          is_image_related = any_term_in image_terms user_query
      in if is_image_related then user_query @ image_suffix else search_query)"

text \<open>
  Lines 1051-1059: the diversity-aware search, and the plain search when it raises.
\<close>

definition retrieve :: "vectordb \<Rightarrow> string \<Rightarrow> string + document list" where
  "retrieve vdb search_query =
     (case vdb_mmr_search vdb search_query of
        Some docs \<Rightarrow> Inr docs
      | None \<Rightarrow> vdb_similarity_search vdb search_query)"

definition section_order :: "string list" where
  "section_order = [''title'', ''description'', ''headings'', ''main_content'', ''tables'',
                    ''lists'', ''unknown'']"

text \<open>\<open>sections[section_name]\<close>: the contents of the retrieved documents of a section.\<close>

definition section_contents :: "string \<Rightarrow> document list \<Rightarrow> string list" where
  "section_contents section_name docs =
     map page_content (filter (\<lambda>d. doc_section d = section_name) docs)"

definition section_block :: "document list \<Rightarrow> string \<Rightarrow> string" where
  "section_block docs section_name =
     (case section_contents section_name docs of
        [] \<Rightarrow> []
      | c # cs \<Rightarrow>
          if section_name \<in> set [''title'', ''description''] then c @ [nl, nl]
          else join [nl] (c # cs) @ [nl, nl])"

text \<open>The context of one source (lines 1064-1082).\<close>

definition source_context :: "world \<Rightarrow> string \<Rightarrow> metadata \<Rightarrow> document list \<Rightarrow> string" where
  "source_context W url metadata relevant_docs =
     ''SOURCE: '' @ get_domain W url @ [nl] @ ''TITLE: '' @ fmt_opt (md_title metadata) @ [nl, nl]
     @ concat (map (section_block relevant_docs) section_order)"

text \<open>
  The loop over \<open>websites_to_search\<close> (lines 1031-1084) with its variables
  \<open>all_contexts\<close> and \<open>sources\<close>; both dictionaries are read with \<open>[url]\<close>, which raises
  \<open>KeyError\<close> on a missing key, and an exception of \<open>similarity_search\<close> leaves the
  handler.  The set \<open>sources\<close> is kept as the list of its elements in the order they
  were added.
\<close>

fun search_loop ::
    "world \<Rightarrow> session \<Rightarrow> string \<Rightarrow> string list \<Rightarrow> string list \<Rightarrow> string list
     \<Rightarrow> exn + string list \<times> string list" where
  "search_loop W st user_query [] all_contexts sources = Inr (all_contexts, sources)"
| "search_loop W st user_query (url # urls) all_contexts sources =
     (case map_of (websites st) url of
        None \<Rightarrow> Inl (KeyError url)
      | Some vdb \<Rightarrow>
          (case map_of (website_metadata st) url of
             None \<Rightarrow> Inl (KeyError url)
           | Some metadata \<Rightarrow>
               (case retrieve vdb (rewrite_query W user_query) of
                  Inl m \<Rightarrow> Inl (Error m)
                | Inr relevant_docs \<Rightarrow>
                    if relevant_docs \<noteq> [] then
                      search_loop W st user_query urls
                        (all_contexts @ [source_context W url metadata relevant_docs])
                        (if url \<in> set sources then sources else sources @ [url])
                    else search_loop W st user_query urls all_contexts sources)))"

definition insufficient_message :: string where
  "insufficient_message =
     ''I don't have enough information to answer this question based on the websites you've provided. Could you rephrase your question or provide more websites with relevant information?''"

definition apology_message :: string where
  "apology_message =
     ''I'm sorry, I encountered an error processing your request. Please try again.''"

text \<open>\<open>prompt_template.format(context=context)\<close> (lines 1090-1111).\<close>

definition prompt_before_context :: string where
  "prompt_before_context = join [nl]
     [''You are an expert website analyst and information retriever. You help users understand website content without them having to read the entire site.'',
      '''',
      ''Your goal is to provide PRECISE, ACCURATE and DIRECTLY RELEVANT answers based ONLY on the information from the websites provided.'',
      '''',
      ''Follow these instructions carefully:'',
      '''',
      ''1. Answer ONLY based on the website content provided below - NEVER make up information'',
      ''2. Be specific and detailed when answering questions about website content'',
      ''3. If asked for a summary, provide a concise but comprehensive overview'',
      ''4. If asked about specific information, focus precisely on that topic'',
      ''5. Always cite which website provided the information you're sharing'',
      ''6. If the answer isn't in the provided content, say so clearly'',
      ''7. Format your answers with clear headings and structure when appropriate'',
      ''8. Match your answer's length to the complexity of the question'',
      ''9. Use bullet points for lists and clear formatting for better readability'',
      ''10. For complex topics, organize the information in a logical flow'',
      '''',
      ''Website information:'',
      '''']"

definition prompt_after_context :: string where
  "prompt_after_context = join [nl]
     ['''',
      '''',
      ''Remember: Your purpose is to help users quickly extract and understand website content without reading it themselves.'',
      '''']"

definition format_prompt :: "string \<Rightarrow> string" where
  "format_prompt context_text = prompt_before_context @ context_text @ prompt_after_context"

text \<open>
  \<open>query_groq\<close> (lines 376-407): the answer, or the apology when the request raises.
\<close>

definition query_groq :: "world \<Rightarrow> string \<Rightarrow> message list \<Rightarrow> real \<Rightarrow> int \<Rightarrow> string" where
  "query_groq W prompt history temperature max_tokens =
     (case groq_post W prompt history temperature max_tokens of
        Some answer \<Rightarrow> answer
      | None \<Rightarrow> apology_message)"

text \<open>\<open>xs[-n:]\<close> for \<open>n > 0\<close>: the last \<open>n\<close> elements.\<close>

definition last_n :: "nat \<Rightarrow> 'a list \<Rightarrow> 'a list" where
  "last_n n xs = drop (length xs - n) xs"

text \<open>
  What the handler leaves behind for one question: the session, the answer shown, the
  sources shown, the images shown, and the calls of \<open>query_groq\<close> it made, each with its
  four arguments.
\<close>

record chat_result =
  cr_session :: session
  cr_response :: string
  cr_sources :: "string list"
  cr_images :: "image list"
  cr_groq_calls :: "(string \<times> message list \<times> real \<times> int) list"

text \<open>Lines 1137-1141: the relevant images of every contributing source.\<close>

definition relevant_images_of :: "session \<Rightarrow> string \<Rightarrow> string list \<Rightarrow> image list" where
  "relevant_images_of st user_query sources =
     concat (map (\<lambda>url. find_relevant_images user_query (map_of (website_metadata st) url) 3)
               sources)"

text \<open>
  The handler for one question (lines 1015-1141).  An exception that leaves the loop
  leaves the handler; the user message has been appended to \<open>message_history\<close> by then.
\<close>

definition chat :: "world \<Rightarrow> real \<Rightarrow> session \<Rightarrow> string \<Rightarrow> exn \<times> session + chat_result" where
  "chat W temperature st user_query =
     (let to_search = websites_to_search W st user_query;
          st1 = st\<lparr>message_history :=
                      message_history st @ [\<lparr>msg_role = ''user'', msg_content = user_query\<rparr>]\<rparr>
      in (case search_loop W st1 user_query to_search [] [] of
            Inl e \<Rightarrow> Inl (e, st1)
          | Inr (all_contexts, found) \<Rightarrow>
              (let (response_text, sources, calls) =
                     (if all_contexts = [] then (insufficient_message, [], [])
                      else
                        (let context_text =
                               join ([nl, nl] @ ''=====WEBSITE INFORMATION====='' @ [nl, nl])
                                 all_contexts;
                             prompt = format_prompt context_text;
                             history = last_n 10 (message_history st1)
                         in (query_groq W prompt history temperature 1200, found,
                             [(prompt, history, temperature, 1200)])));
                   history1 = message_history st1
                                @ [\<lparr>msg_role = ''assistant'', msg_content = response_text\<rparr>];
                   history2 = (if length history1 > 20 then last_n 20 history1 else history1);
                   st2 = st1\<lparr>message_history := history2,
                             chat_history := chat_history st1
                               @ [\<lparr>ce_question = user_query, ce_answer = response_text,
                                    ce_sources = sources\<rparr>]\<rparr>
               in Inr \<lparr>cr_session = st2, cr_response = response_text, cr_sources = sources,
                        cr_images = relevant_images_of st2 user_query sources,
                        cr_groq_calls = calls\<rparr>)))"

text \<open>The test of line 1023: the domain of \<open>url\<close> occurs in the question.\<close>

definition domain_mentioned :: "world \<Rightarrow> string \<Rightarrow> string \<Rightarrow> bool" where
  "domain_mentioned W user_query url = str_in (lower (get_domain W url)) (lower user_query)"

text \<open>
  Example.  A session with two indexed sources, \<open>https://alpha.example\<close> and
  \<open>https://beta.example\<close>, whose indexes hold no document (every search returns zero
  hits).
\<close>

definition plain_metadata :: "string \<Rightarrow> metadata" where
  "plain_metadata url =
     \<lparr>md_title = Some ''Example Domain'', md_authors = Some [], md_publish_date = None,
      md_url = url, md_domain = drop 8 url, md_description = Some [], md_keywords = Some [],
      md_images = Some []\<rparr>"

definition two_sources :: session where
  "two_sources =
     initial_session
       \<lparr>websites := [(''https://alpha.example'', first_docs_index []),
                     (''https://beta.example'', first_docs_index [])],
        website_metadata := [(''https://alpha.example'', plain_metadata ''https://alpha.example''),
                             (''https://beta.example'', plain_metadata ''https://beta.example'')],
        websites_processed := True\<rparr>"
section \<open>Facts about the string helpers\<close>

lemma startswith_iff: "startswith s p \<longleftrightarrow> (\<exists>t. s = p @ t)"
proof
  assume "startswith s p"
  then have "s = p @ drop (length p) s"
    by (metis append_take_drop_id startswith_def)
  then show "\<exists>t. s = p @ t" ..
next
  assume "\<exists>t. s = p @ t"
  then show "startswith s p" by (auto simp: startswith_def)
qed

lemma str_in_iff: "str_in n h \<longleftrightarrow> (\<exists>p s. h = p @ n @ s)"
proof (induction h)
  case Nil
  show ?case by auto
next
  case (Cons c cs)
  show ?case
  proof
    assume "str_in n (c # cs)"
    then consider "startswith (c # cs) n" | "str_in n cs" by auto
    then show "\<exists>p s. c # cs = p @ n @ s"
    proof cases
      case 1
      then obtain t where "c # cs = n @ t" by (auto simp: startswith_iff)
      then have "c # cs = [] @ n @ t" by simp
      then show ?thesis by blast
    next
      case 2
      then obtain p s where "cs = p @ n @ s" using Cons.IH by auto
      then have "c # cs = (c # p) @ n @ s" by simp
      then show ?thesis by blast
    qed
  next
    assume "\<exists>p s. c # cs = p @ n @ s"
    then obtain p s where ps: "c # cs = p @ n @ s" by auto
    show "str_in n (c # cs)"
    proof (cases p)
      case Nil
      with ps have "startswith (c # cs) n" by (auto simp: startswith_iff)
      then show ?thesis by simp
    next
      case (Cons d p')
      with ps have "cs = p' @ n @ s" by simp
      then have "str_in n cs" using Cons.IH by blast
      then show ?thesis by simp
    qed
  qed
qed

section \<open>Section labels\<close>

lemma make_documents_length: "length (make_documents dname url md chunks) = length chunks"
  by (simp add: make_documents_def)

lemma make_documents_nth:
  "i < length chunks \<Longrightarrow>
   make_documents dname url md chunks ! i = make_document dname url md (i, chunks ! i)"
  by (simp add: make_documents_def nth_enumerate_eq)

text \<open>
  Claim C1, as stated, fails: the chunk \<open>TITLE: Example\\n\\nMAIN CONTENT:\\nBody\<close> (the
  text the raw-markup fallback assembles for a short page, which fits in one chunk)
  contains the marker \<open>MAIN CONTENT:\<close> and is labelled \<open>title\<close>, because the chain tests
  \<open>TITLE:\<close> first.
\<close>

theorem section_label_main_content_counterexample:
  "str_in ''MAIN CONTENT:'' (''TITLE: Example'' @ [nl, nl] @ ''MAIN CONTENT:'' @ [nl] @ ''Body'')
   \<and> section_label (''TITLE: Example'' @ [nl, nl] @ ''MAIN CONTENT:'' @ [nl] @ ''Body'') = ''title''
   \<and> ''title'' \<noteq> ''main_content''"
  by (simp add: section_label_def startswith_def nl_def)

text \<open>
  Claim C1, amended: the section label of every indexed chunk is a function of that
  chunk's own text, whatever the other chunks are: the label of the first marker that
  the chunk contains, in the fixed order \<open>TITLE:\<close>, \<open>DESCRIPTION:\<close>, \<open>HEADINGS:\<close>,
  \<open>MAIN CONTENT:\<close>, \<open>TABLES:\<close>, \<open>LISTS:\<close>, and \<open>unknown\<close> when it contains none.  So a
  chunk that contains \<open>MAIN CONTENT:\<close> is labelled \<open>main_content\<close> exactly when it
  contains none of the three markers tested before it.
\<close>

theorem section_label_priority_order:
  assumes "i < length chunks"
  shows "(str_in ''TITLE:'' (chunks ! i)
       \<longrightarrow> doc_section (make_documents dname url md chunks ! i) = ''title'')
    \<and> (\<not> str_in ''TITLE:'' (chunks ! i)
       \<and> str_in ''DESCRIPTION:'' (chunks ! i)
       \<longrightarrow> doc_section (make_documents dname url md chunks ! i) = ''description'')
    \<and> (\<not> str_in ''TITLE:'' (chunks ! i)
       \<and> \<not> str_in ''DESCRIPTION:'' (chunks ! i)
       \<and> str_in ''HEADINGS:'' (chunks ! i)
       \<longrightarrow> doc_section (make_documents dname url md chunks ! i) = ''headings'')
    \<and> (\<not> str_in ''TITLE:'' (chunks ! i)
       \<and> \<not> str_in ''DESCRIPTION:'' (chunks ! i)
       \<and> \<not> str_in ''HEADINGS:'' (chunks ! i)
       \<and> str_in ''MAIN CONTENT:'' (chunks ! i)
       \<longrightarrow> doc_section (make_documents dname url md chunks ! i) = ''main_content'')
    \<and> (\<not> str_in ''TITLE:'' (chunks ! i)
       \<and> \<not> str_in ''DESCRIPTION:'' (chunks ! i)
       \<and> \<not> str_in ''HEADINGS:'' (chunks ! i)
       \<and> \<not> str_in ''MAIN CONTENT:'' (chunks ! i)
       \<and> str_in ''TABLES:'' (chunks ! i)
       \<longrightarrow> doc_section (make_documents dname url md chunks ! i) = ''tables'')
    \<and> (\<not> str_in ''TITLE:'' (chunks ! i)
       \<and> \<not> str_in ''DESCRIPTION:'' (chunks ! i)
       \<and> \<not> str_in ''HEADINGS:'' (chunks ! i)
       \<and> \<not> str_in ''MAIN CONTENT:'' (chunks ! i)
       \<and> \<not> str_in ''TABLES:'' (chunks ! i)
       \<and> str_in ''LISTS:'' (chunks ! i)
       \<longrightarrow> doc_section (make_documents dname url md chunks ! i) = ''lists'')
    \<and> (\<not> str_in ''TITLE:'' (chunks ! i)
       \<and> \<not> str_in ''DESCRIPTION:'' (chunks ! i)
       \<and> \<not> str_in ''HEADINGS:'' (chunks ! i)
       \<and> \<not> str_in ''MAIN CONTENT:'' (chunks ! i)
       \<and> \<not> str_in ''TABLES:'' (chunks ! i)
       \<and> \<not> str_in ''LISTS:'' (chunks ! i)
       \<longrightarrow> doc_section (make_documents dname url md chunks ! i) = ''unknown'')
    \<and> (str_in ''MAIN CONTENT:'' (chunks ! i) \<longrightarrow>
       (doc_section (make_documents dname url md chunks ! i) = ''main_content'' \<longleftrightarrow>
          \<not> str_in ''TITLE:'' (chunks ! i) \<and> \<not> str_in ''DESCRIPTION:'' (chunks ! i) \<and> \<not> str_in ''HEADINGS:'' (chunks ! i)))"
proof -
  have "doc_section (make_documents dname url md chunks ! i) = section_label (chunks ! i)"
    using assms by (simp add: make_documents_nth make_document_def)
  then show ?thesis by (simp add: section_label_def)
qed

theorem section_label_priority_order_witness:
  "doc_section (make_documents ''example.com'' ''https://example.com''
      \<lparr>md_title = Some ''Example'', md_authors = None, md_publish_date = None,
       md_url = ''https://example.com'', md_domain = ''example.com'', md_description = None,
       md_keywords = None, md_images = None\<rparr>
      [''TITLE: Example'', ''MAIN CONTENT: Body'', ''more body''] ! 1) = ''main_content''
   \<and> doc_section (make_documents ''example.com'' ''https://example.com''
      \<lparr>md_title = Some ''Example'', md_authors = None, md_publish_date = None,
       md_url = ''https://example.com'', md_domain = ''example.com'', md_description = None,
       md_keywords = None, md_images = None\<rparr>
      [''TITLE: Example'', ''MAIN CONTENT: Body'', ''more body''] ! 2) = ''unknown''"
proof (intro conjI)
  let ?cs = "[''TITLE: Example'', ''MAIN CONTENT: Body'', ''more body'']"
  have i1: "1 < length ?cs" and i2: "2 < length ?cs" by simp_all
  have m: "\<not> str_in ''TITLE:'' (?cs ! 1) \<and> \<not> str_in ''DESCRIPTION:'' (?cs ! 1)
           \<and> \<not> str_in ''HEADINGS:'' (?cs ! 1) \<and> str_in ''MAIN CONTENT:'' (?cs ! 1)"
    by (simp add: startswith_def)
  have u: "\<not> str_in ''TITLE:'' (?cs ! 2) \<and> \<not> str_in ''DESCRIPTION:'' (?cs ! 2)
           \<and> \<not> str_in ''HEADINGS:'' (?cs ! 2) \<and> \<not> str_in ''MAIN CONTENT:'' (?cs ! 2)
           \<and> \<not> str_in ''TABLES:'' (?cs ! 2) \<and> \<not> str_in ''LISTS:'' (?cs ! 2)"
    by (simp add: startswith_def)
  show "doc_section (make_documents ''example.com'' ''https://example.com''
      \<lparr>md_title = Some ''Example'', md_authors = None, md_publish_date = None,
       md_url = ''https://example.com'', md_domain = ''example.com'', md_description = None,
       md_keywords = None, md_images = None\<rparr> ?cs ! 1) = ''main_content''"
    by (rule section_label_priority_order [OF i1, THEN conjunct2, THEN conjunct2,
          THEN conjunct2, THEN conjunct1, THEN mp, OF m])
  show "doc_section (make_documents ''example.com'' ''https://example.com''
      \<lparr>md_title = Some ''Example'', md_authors = None, md_publish_date = None,
       md_url = ''https://example.com'', md_domain = ''example.com'', md_description = None,
       md_keywords = None, md_images = None\<rparr> ?cs ! 2) = ''unknown''"
    by (rule section_label_priority_order [OF i2, THEN conjunct2, THEN conjunct2,
          THEN conjunct2, THEN conjunct2, THEN conjunct2, THEN conjunct2, THEN conjunct1,
          THEN mp, OF u])
qed

section \<open>Image relevance ranking\<close>

lemma terms_of_empty: "terms_of [] = {}"
  by (simp add: terms_of_def split_def lower_def)

lemma image_score_eq: "image_score q img = spec_score q img"
  by (simp add: image_score_def spec_score_def Let_def terms_of_empty)

lemma spec_score_nonneg: "0 \<le> spec_score q img"
  by (simp add: spec_score_def)

lemma scored_images_eq:
  "scored_images q imgs =
     map (\<lambda>i. (i, spec_score q i)) (filter (\<lambda>i. spec_score q i \<noteq> 0) imgs)"
proof (induction imgs)
  case Nil
  show ?case by simp
next
  case (Cons img imgs)
  have "0 < spec_score q img \<longleftrightarrow> spec_score q img \<noteq> 0"
    using spec_score_nonneg [of q img] by arith
  with Cons show ?case by (simp add: image_score_eq Let_def)
qed

lemma insort_key_map: "map h (insort_key (\<lambda>x. g (h x)) a xs) = insort_key g (h a) (map h xs)"
  by (induction xs) auto

lemma sort_key_map: "sort_key g (map h xs) = map h (sort_key (\<lambda>x. g (h x)) xs)"
  by (induction xs) (auto simp: insort_key_map)

lemma sort_reverse_pairs:
  "map fst (sort_reverse snd (map (\<lambda>i. (i, f i)) xs)) = sort_key (\<lambda>i. - f i) xs"
  by (simp add: sort_reverse_def sort_key_map comp_def)

lemma find_relevant_images_spec_rank:
  assumes "0 \<le> m"
  shows "find_relevant_images q metadata m = spec_rank q (images_of metadata) (nat m)"
proof -
  have *: "map fst (slice_to m (sort_reverse snd (scored_images q imgs))) = spec_rank q imgs (nat m)" for imgs
    using assms
    by (simp add: slice_to_def take_map [symmetric] scored_images_eq sort_reverse_pairs spec_rank_def)
  have nil: "spec_rank q [] (nat m) = []" by (simp add: spec_rank_def)
  show ?thesis
  proof (cases metadata)
    case None
    then show ?thesis by (simp add: find_relevant_images_def images_of_def nil)
  next
    case (Some md)
    show ?thesis
    proof (cases "md_images md")
      case None
      with Some show ?thesis by (simp add: find_relevant_images_def images_of_def nil)
    next
      case (Some imgs)
      show ?thesis
      proof (cases imgs)
        case Nil
        with Some \<open>metadata = Some md\<close> show ?thesis
          by (simp add: find_relevant_images_def images_of_def nil)
      next
        case (Cons i rest)
        have "find_relevant_images q metadata m
              = map fst (slice_to m (sort_reverse snd (scored_images q imgs)))"
          using Cons Some \<open>metadata = Some md\<close>
          by (simp add: find_relevant_images_def del: scored_images.simps)
        also have "\<dots> = spec_rank q imgs (nat m)" by (rule *)
        finally show ?thesis
          using Some \<open>metadata = Some md\<close> by (simp add: images_of_def)
      qed
    qed
  qed
qed

lemma spec_rank_length: "length (spec_rank q imgs n) \<le> n"
  by (simp add: spec_rank_def)

lemma spec_rank_set: "img \<in> set (spec_rank q imgs n) \<Longrightarrow> img \<in> set imgs \<and> 0 < spec_score q img"
proof -
  assume "img \<in> set (spec_rank q imgs n)"
  then have "img \<in> set (sort_key (\<lambda>img. - spec_score q img) (filter (\<lambda>img. spec_score q img \<noteq> 0) imgs))"
    unfolding spec_rank_def by (rule in_set_takeD)
  then have "img \<in> set imgs \<and> spec_score q img \<noteq> 0" by simp
  then show ?thesis using spec_score_nonneg [of q img] by arith
qed

lemma spec_rank_sorted: "sorted_wrt (\<lambda>a b. spec_score q b \<le> spec_score q a) (spec_rank q imgs n)"
proof -
  let ?S = "sort_key (\<lambda>img. - spec_score q img) (filter (\<lambda>img. spec_score q img \<noteq> 0) imgs)"
  have "sorted (map (\<lambda>img. - spec_score q img) ?S)" by (rule sorted_sort_key)
  then have "sorted_wrt (\<lambda>a b. spec_score q b \<le> spec_score q a) ?S"
    by (simp add: sorted_map)
  then show ?thesis unfolding spec_rank_def by (rule sorted_wrt_take)
qed

lemma spec_rank_stable:
  "prefix (filter (\<lambda>i. spec_score q i = k) (spec_rank q imgs n))
          (filter (\<lambda>i. spec_score q i = k) (filter (\<lambda>i. spec_score q i \<noteq> 0) imgs))"
proof -
  let ?P = "filter (\<lambda>img. spec_score q img \<noteq> 0) imgs"
  let ?S = "sort_key (\<lambda>img. - spec_score q img) ?P"
  have "prefix (filter (\<lambda>i. spec_score q i = k) (take n ?S)) (filter (\<lambda>i. spec_score q i = k) ?S)"
    by (rule filter_mono_prefix) (rule take_is_prefix)
  moreover have "filter (\<lambda>i. - spec_score q i = - k) ?S = filter (\<lambda>i. - spec_score q i = - k) ?P"
    by (rule sort_key_stable)
  ultimately show ?thesis by (simp add: spec_rank_def)
qed


text \<open>
  Claim C8: for a limit \<open>max_images \<ge> 0\<close> (the only call, line 1140, uses the default 3),
  \<open>find_relevant_images\<close> is a function of the question and the image list that returns
  the ranking of the specification: every image scored
  \<open>2|Q \<inter> alt| + 2|Q \<inter> caption| + 3|Q \<inter> heading| + |Q \<inter> surrounding|\<close> over
  lowercase word sets, images of score 0 left out, at most \<open>max_images\<close> images, in
  descending order of score, images of equal score in their original order.
\<close>

theorem find_relevant_images_ranking:
  assumes "0 \<le> max_images"
  shows "find_relevant_images q metadata max_images
           = spec_rank q (images_of metadata) (nat max_images)
    \<and> length (find_relevant_images q metadata max_images) \<le> nat max_images
    \<and> (\<forall>img \<in> set (find_relevant_images q metadata max_images).
          img \<in> set (images_of metadata) \<and> image_score q img = spec_score q img
          \<and> 0 < spec_score q img)
    \<and> sorted_wrt (\<lambda>a b. spec_score q b \<le> spec_score q a)
          (find_relevant_images q metadata max_images)
    \<and> (\<forall>k. prefix (filter (\<lambda>i. spec_score q i = k) (find_relevant_images q metadata max_images))
                    (filter (\<lambda>i. spec_score q i = k) (images_of metadata)))"
proof -
  let ?imgs = "images_of metadata"
  let ?R = "find_relevant_images q metadata max_images"
  have eq: "?R = spec_rank q ?imgs (nat max_images)"
    using assms by (rule find_relevant_images_spec_rank)
  have len: "length ?R \<le> nat max_images"
    unfolding eq by (rule spec_rank_length)
  have mem: "\<forall>img \<in> set ?R. img \<in> set ?imgs \<and> image_score q img = spec_score q img
               \<and> 0 < spec_score q img"
    unfolding eq using spec_rank_set [of _ q ?imgs "nat max_images"]
    by (auto simp: image_score_eq)
  have srt: "sorted_wrt (\<lambda>a b. spec_score q b \<le> spec_score q a) ?R"
    unfolding eq by (rule spec_rank_sorted)
  have stab: "prefix (filter (\<lambda>i. spec_score q i = k) ?R) (filter (\<lambda>i. spec_score q i = k) ?imgs)"
    for k
  proof (cases "k = 0")
    case True
    have "filter (\<lambda>i. spec_score q i = k) ?R = []"
      using mem True by (auto simp: filter_empty_conv)
    then show ?thesis by simp
  next
    case False
    have "filter (\<lambda>i. spec_score q i = k) (filter (\<lambda>i. spec_score q i \<noteq> 0) ?imgs)
          = filter (\<lambda>i. spec_score q i = k) ?imgs"
      using False by (auto intro: filter_cong)
    then show ?thesis
      unfolding eq using spec_rank_stable [of q k ?imgs "nat max_images"] by simp
  qed
  from eq len mem srt stab show ?thesis by blast
qed

theorem find_relevant_images_ranking_witness:
  "(0::int) \<le> 3
   \<and> map img_url (find_relevant_images ''Show me cat photo'' (Some pets_metadata) 3)
       = [''b.png'', ''a.png'', ''d.png'']
   \<and> length (find_relevant_images ''Show me cat photo'' (Some pets_metadata) 3) \<le> nat 3"
proof (intro conjI)
  show h: "(0::int) \<le> 3" by simp
  show "map img_url (find_relevant_images ''Show me cat photo'' (Some pets_metadata) 3)
       = [''b.png'', ''a.png'', ''d.png'']"
    by (simp add: find_relevant_images_def pets_metadata_def image_score_def terms_of_def
        split_def lower_def char_lower_def is_space_def slice_to_def sort_reverse_def Let_def)
  show "length (find_relevant_images ''Show me cat photo'' (Some pets_metadata) 3) \<le> nat 3"
    by (rule find_relevant_images_ranking [OF h, THEN conjunct2, THEN conjunct1])
qed

section \<open>Image download and the image loop\<close>

lemma path_join_nonempty: "a \<noteq> [] \<Longrightarrow> path_join a b \<noteq> []"
  by (auto simp: path_join_def startswith_def)

lemma cache_path_nonempty: "path_join CACHE_DIR f \<noteq> []"
  by (rule path_join_nonempty) (simp add: CACHE_DIR_def)

lemma not_startswith_nil [simp]: "\<not> startswith [] ''image/''"
  by (simp add: startswith_def)

lemma download_result:
  "fst (download_and_save_image W fs u f)
     = (if download_accepted W u then Some (path_join CACHE_DIR f) else None)"
  by (auto simp: download_and_save_image_def download_accepted_def content_type_ok_def
      content_length_ok_def dimensions_ok_def Let_def
      split: option.splits prod.splits)

text \<open>One round of the loop, by the outcome of \<open>extract_image_info\<close> and of the download.\<close>

lemma images_loop_raise:
  assumes "n < 10" and "extract_image_info W el pt url = Inl e"
  shows "images_loop W url pt (el # els) fs acc n = (Inl e, fs)"
  using assms by simp

lemma images_loop_skip:
  assumes "n < 10" and "extract_image_info W el pt url = Inr None"
  shows "images_loop W url pt (el # els) fs acc n = images_loop W url pt els fs acc n"
  using assms by simp

lemma images_loop_rejected:
  assumes "n < 10" and "extract_image_info W el pt url = Inr (Some info)"
    and "\<not> download_accepted W (img_url info)"
  shows "images_loop W url pt (el # els) fs acc n
         = images_loop W url pt els
             (snd (download_and_save_image W fs (img_url info)
                     (generate_image_filename W url (img_url info)))) acc n"
  using assms
    download_result [of W fs "img_url info" "generate_image_filename W url (img_url info)"]
  by (cases "download_and_save_image W fs (img_url info)
               (generate_image_filename W url (img_url info))") simp

lemma images_loop_accepted:
  assumes "n < 10" and "extract_image_info W el pt url = Inr (Some info)"
    and "download_accepted W (img_url info)"
  shows "images_loop W url pt (el # els) fs acc n
         = images_loop W url pt els
             (snd (download_and_save_image W fs (img_url info)
                     (generate_image_filename W url (img_url info))))
             (acc @ [cached_image W url info]) (Suc n)"
  using assms cache_path_nonempty
    download_result [of W fs "img_url info" "generate_image_filename W url (img_url info)"]
  by (cases "download_and_save_image W fs (img_url info)
               (generate_image_filename W url (img_url info))")
     (simp add: cached_image_def)

lemma images_loop_full: "images_loop W url pt els fs acc 10 = (Inr acc, fs)"
  by (cases els) simp_all

lemma images_loop_returns:
  assumes "n \<le> 10" and "fst (images_loop W url pt els fs acc n) = Inr images"
  shows "images = acc @ take (10 - n) (map (cached_image W url)
            (filter (\<lambda>info. download_accepted W (img_url info))
               (image_candidates W url pt els)))"
  using assms
proof (induction els arbitrary: fs acc n)
  case Nil
  then show ?case by (simp add: image_candidates_def List.map_filter_simps)
next
  case (Cons el els)
  show ?case
  proof (cases "n = 10")
    case True
    with Cons.prems show ?thesis by (simp add: images_loop_full)
  next
    case False
    with Cons.prems have n: "n < 10" by simp
    show ?thesis
    proof (cases "extract_image_info W el pt url")
      case (Inl e)
      with Cons.prems n show ?thesis by simp
    next
      case (Inr r)
      show ?thesis
      proof (cases r)
        case None
        with Inr have skip: "extract_image_info W el pt url = Inr None" by simp
        from Cons.prems(2) have "fst (images_loop W url pt els fs acc n) = Inr images"
          unfolding images_loop_skip [OF n skip] .
        from Cons.IH [OF Cons.prems(1) this] show ?thesis
          using skip by (simp add: image_candidates_def kept_info_def List.map_filter_simps)
      next
        case (Some info)
        with Inr have some: "extract_image_info W el pt url = Inr (Some info)" by simp
        let ?fs = "snd (download_and_save_image W fs (img_url info)
                     (generate_image_filename W url (img_url info)))"
        show ?thesis
        proof (cases "download_accepted W (img_url info)")
          case True
          have sn: "Suc n \<le> 10" using n by simp
          from Cons.prems(2)
          have "fst (images_loop W url pt els ?fs (acc @ [cached_image W url info]) (Suc n))
                = Inr images"
            unfolding images_loop_accepted [OF n some True] .
          from Cons.IH [OF sn this] show ?thesis
            using some True n
            by (simp add: image_candidates_def kept_info_def List.map_filter_simps
                Suc_diff_le take_Cons')
        next
          case False
          from Cons.prems(2) have "fst (images_loop W url pt els ?fs acc n) = Inr images"
            unfolding images_loop_rejected [OF n some False] .
          from Cons.IH [OF Cons.prems(1) this] show ?thesis
            using some False
            by (simp add: image_candidates_def kept_info_def List.map_filter_simps)
        qed
      qed
    qed
  qed
qed

lemma images_loop_raises:
  assumes "fst (images_loop W url pt els fs acc n) = Inl e"
  shows "\<exists>el \<in> set els. extract_image_info W el pt url = Inl e"
  using assms
proof (induction els arbitrary: fs acc n)
  case Nil
  then show ?case by simp
next
  case (Cons el els)
  show ?case
  proof (cases "n < 10")
    case False
    with Cons.prems show ?thesis by simp
  next
    case n: True
    show ?thesis
    proof (cases "extract_image_info W el pt url")
      case (Inl e')
      with Cons.prems n show ?thesis by simp
    next
      case (Inr r)
      show ?thesis
      proof (cases r)
        case None
        with Inr have skip: "extract_image_info W el pt url = Inr None" by simp
        from Cons.prems have "fst (images_loop W url pt els fs acc n) = Inl e"
          unfolding images_loop_skip [OF n skip] .
        from Cons.IH [OF this] show ?thesis by auto
      next
        case (Some info)
        with Inr have some: "extract_image_info W el pt url = Inr (Some info)" by simp
        show ?thesis
        proof (cases "download_accepted W (img_url info)")
          case True
          from Cons.prems show ?thesis
            unfolding images_loop_accepted [OF n some True] using Cons.IH by auto
        next
          case False
          from Cons.prems show ?thesis
            unfolding images_loop_rejected [OF n some False] using Cons.IH by auto
        qed
      qed
    qed
  qed
qed

lemma images_loop_cache_independent:
  "fst (images_loop W url pt els fs acc n) = fst (images_loop W url pt els fs' acc n)"
proof (induction els arbitrary: fs fs' acc n)
  case Nil
  show ?case by simp
next
  case (Cons el els)
  show ?case
  proof (cases "n < 10")
    case False
    then show ?thesis by simp
  next
    case n: True
    show ?thesis
    proof (cases "extract_image_info W el pt url")
      case (Inl e)
      with n show ?thesis by simp
    next
      case (Inr r)
      show ?thesis
      proof (cases r)
        case None
        with Inr have skip: "extract_image_info W el pt url = Inr None" by simp
        show ?thesis unfolding images_loop_skip [OF n skip] by (rule Cons.IH)
      next
        case (Some info)
        with Inr have some: "extract_image_info W el pt url = Inr (Some info)" by simp
        show ?thesis
        proof (cases "download_accepted W (img_url info)")
          case True
          show ?thesis unfolding images_loop_accepted [OF n some True] by (rule Cons.IH)
        next
          case False
          show ?thesis unfolding images_loop_rejected [OF n some False] by (rule Cons.IH)
        qed
      qed
    qed
  qed
qed

lemma download_accepted_iff:
  "download_accepted W u \<longleftrightarrow>
     (\<exists>r w h. http_get_image W u = Some r \<and> resp_status_ok r \<and> resp_stream_ok r
        \<and> content_type_ok r \<and> content_length_ok r
        \<and> image_size W (resp_body r) = Some (w, h)
        \<and> 50 \<le> w \<and> w \<le> 3000 \<and> 50 \<le> h \<and> h \<le> 3000)"
  by (auto simp: download_accepted_def dimensions_ok_def split: option.splits)

lemma cached_image_fields:
  "img_url (cached_image W url info) = img_url info"
  "local_path (cached_image W url info)
     = path_join CACHE_DIR (generate_image_filename W url (img_url info))"
  by (simp_all add: cached_image_def accepted_image_def)

lemma map_map_filter: "map g (List.map_filter f xs) = List.map_filter (\<lambda>x. map_option g (f x)) xs"
  by (induction xs) (auto simp: List.map_filter_simps split: option.splits)

lemma photo_world_valid: "is_valid_url photo_world u"
  by (simp add: is_valid_url_def photo_world_def offline_world_def)

lemma photo_world_accepted:
  "download_accepted photo_world u \<longleftrightarrow> u \<noteq> ''https://site.example/tiny.png''"
  by (simp add: download_accepted_def photo_world_def offline_world_def photo_response_def
      content_type_ok_def content_length_ok_def dimensions_ok_def startswith_def)

lemma photo_world_no_raise: "extract_image_info photo_world el pt url \<noteq> Inl e"
  by (simp add: extract_image_info_def photo_world_def offline_world_def Let_def)

text \<open>
  Claim C5.  \<open>extract_images_from_website\<close> either returns a list or raises the
  \<open>ValueError\<close> that \<open>urljoin\<close> raised on the \<open>src\<close> of one of the \<open>img\<close> elements; it
  returns whenever no element has such a \<open>src\<close>.  Every list it returns has at most 10
  images; it is the first 10, in the order of the \<open>img\<close> elements, of the candidates
  whose download was accepted; and every image in it carries the cache path of its
  own URL, its download having answered with an image content type, with a
  \<open>Content-Length\<close> that is missing or at most 5 MiB, and with bytes that decode to a
  size with \<open>50 \<le> width \<le> 3000\<close> and \<open>50 \<le> height \<le> 3000\<close>.
\<close>

theorem extract_images_capped_and_validated:
  "(\<forall>images. fst (extract_images_from_website W fs url els pt) = Inr images \<longrightarrow>
      length images \<le> 10
      \<and> images = take 10 (map (cached_image W url)
                   (filter (\<lambda>info. download_accepted W (img_url info))
                      (image_candidates W url pt els)))
      \<and> (\<forall>img \<in> set images.
            \<exists>r w h. http_get_image W (img_url img) = Some r \<and> resp_status_ok r
              \<and> content_type_ok r \<and> content_length_ok r
              \<and> image_size W (resp_body r) = Some (w, h)
              \<and> 50 \<le> w \<and> w \<le> 3000 \<and> 50 \<le> h \<and> h \<le> 3000
              \<and> local_path img
                  = path_join CACHE_DIR (generate_image_filename W url (img_url img))))
   \<and> ((\<forall>el \<in> set els. \<forall>e. extract_image_info W el pt url \<noteq> Inl e) \<longrightarrow>
        (\<exists>images. fst (extract_images_from_website W fs url els pt) = Inr images))
   \<and> (\<forall>e. fst (extract_images_from_website W fs url els pt) = Inl e \<longrightarrow>
        (\<exists>el \<in> set els. extract_image_info W el pt url = Inl e))"
proof -
  let ?R = "fst (extract_images_from_website W fs url els pt)"
  let ?A = "filter (\<lambda>info. download_accepted W (img_url info)) (image_candidates W url pt els)"
  have ret: "length images \<le> 10 \<and> images = take 10 (map (cached_image W url) ?A)
      \<and> (\<forall>img \<in> set images.
            \<exists>r w h. http_get_image W (img_url img) = Some r \<and> resp_status_ok r
              \<and> content_type_ok r \<and> content_length_ok r
              \<and> image_size W (resp_body r) = Some (w, h)
              \<and> 50 \<le> w \<and> w \<le> 3000 \<and> 50 \<le> h \<and> h \<le> 3000
              \<and> local_path img
                  = path_join CACHE_DIR (generate_image_filename W url (img_url img)))"
    if "?R = Inr images" for images
  proof -
    have eq: "images = take 10 (map (cached_image W url) ?A)"
      using images_loop_returns [of 0 W url pt els fs "[]" images] that
      by (simp add: extract_images_from_website_def)
    have len: "length images \<le> 10" unfolding eq by simp
    have mem: "\<exists>r w h. http_get_image W (img_url img) = Some r \<and> resp_status_ok r
              \<and> content_type_ok r \<and> content_length_ok r
              \<and> image_size W (resp_body r) = Some (w, h)
              \<and> 50 \<le> w \<and> w \<le> 3000 \<and> 50 \<le> h \<and> h \<le> 3000
              \<and> local_path img
                  = path_join CACHE_DIR (generate_image_filename W url (img_url img))"
      if "img \<in> set images" for img
    proof -
      from that have "img \<in> set (map (cached_image W url) ?A)"
        unfolding eq by (rule in_set_takeD)
      then obtain info where info: "info \<in> set ?A" and img: "img = cached_image W url info"
        by auto
      from info have "download_accepted W (img_url info)" by simp
      then obtain r w h where "http_get_image W (img_url info) = Some r" "resp_status_ok r"
          "content_type_ok r" "content_length_ok r" "image_size W (resp_body r) = Some (w, h)"
          "50 \<le> w" "w \<le> 3000" "50 \<le> h" "h \<le> 3000"
        unfolding download_accepted_iff by blast
      then show ?thesis unfolding img cached_image_fields by blast
    qed
    from eq len mem show ?thesis by blast
  qed
  have rai: "\<exists>el \<in> set els. extract_image_info W el pt url = Inl e" if "?R = Inl e" for e
    using that images_loop_raises [of W url pt els fs "[]" 0 e]
    by (simp add: extract_images_from_website_def)
  have tot: "\<exists>images. ?R = Inr images"
    if "\<forall>el \<in> set els. \<forall>e. extract_image_info W el pt url \<noteq> Inl e"
  proof (cases ?R)
    case (Inl e)
    from rai [OF this] that show ?thesis by blast
  next
    case (Inr images)
    then show ?thesis by blast
  qed
  from ret rai tot show ?thesis by blast
qed

theorem extract_images_capped_and_validated_witness:
  "map_sum exn_str (map img_url)
     (fst (extract_images_from_website photo_world Map.empty ''https://site.example/''
       (img_tag ''https://site.example/cat.png'' # img_tag ''https://site.example/icon.png''
          # img_tag ''https://site.example/tiny.png''
          # replicate 11 (img_tag ''https://site.example/dog.png''))
       ''<html></html>''))
     = Inr (''https://site.example/cat.png'' # replicate 9 ''https://site.example/dog.png'')
   \<and> fst (extract_images_from_website bracket_world Map.empty ''https://site.example/''
       [img_tag ''https://site.example/cat.png'', img_tag ''//[x''] ''<html></html>'')
     = Inl (ValueError ''Invalid IPv6 URL'')"
proof (intro conjI)
  let ?W = photo_world and ?url = "''https://site.example/''" and ?pt = "''<html></html>''"
  let ?els = "img_tag ''https://site.example/cat.png'' # img_tag ''https://site.example/icon.png''
          # img_tag ''https://site.example/tiny.png''
          # replicate 11 (img_tag ''https://site.example/dog.png'')"
  note t = extract_images_capped_and_validated [of ?W Map.empty ?url ?els ?pt]
  have "\<forall>el \<in> set ?els. \<forall>e. extract_image_info ?W el ?pt ?url \<noteq> Inl e"
    by (simp add: photo_world_no_raise)
  with t [THEN conjunct2, THEN conjunct1]
  obtain images where r: "fst (extract_images_from_website ?W Map.empty ?url ?els ?pt) = Inr images"
    by blast
  have e1: "map_option img_url (kept_info ?W ?url ?pt (img_tag ''https://site.example/cat.png''))
            = Some ''https://site.example/cat.png''"
    by (simp add: kept_info_def extract_image_info_def photo_world_valid img_tag_def
        startswith_def skip_markers_def lower_def char_lower_def Let_def)
  have e2: "map_option img_url (kept_info ?W ?url ?pt (img_tag ''https://site.example/icon.png''))
            = None"
    by (simp add: kept_info_def extract_image_info_def photo_world_valid img_tag_def
        startswith_def skip_markers_def lower_def char_lower_def Let_def)
  have e3: "map_option img_url (kept_info ?W ?url ?pt (img_tag ''https://site.example/tiny.png''))
            = Some ''https://site.example/tiny.png''"
    by (simp add: kept_info_def extract_image_info_def photo_world_valid img_tag_def
        startswith_def skip_markers_def lower_def char_lower_def Let_def)
  have e4: "map_option img_url (kept_info ?W ?url ?pt (img_tag ''https://site.example/dog.png''))
            = Some ''https://site.example/dog.png''"
    by (simp add: kept_info_def extract_image_info_def photo_world_valid img_tag_def
        startswith_def skip_markers_def lower_def char_lower_def Let_def)
  from t [THEN conjunct1, rule_format, OF r, THEN conjunct2, THEN conjunct1]
  have "map img_url images
        = take 10 (filter (download_accepted ?W)
            (List.map_filter (\<lambda>el. map_option img_url (kept_info ?W ?url ?pt el)) ?els))"
    by (simp only: take_map map_map comp_def cached_image_fields filter_map
        image_candidates_def map_map_filter [symmetric])
  also have "\<dots> = ''https://site.example/cat.png'' # replicate 9 ''https://site.example/dog.png''"
    by (simp add: numeral_eq_Suc List.map_filter_simps e1 e2 e3 e4 photo_world_accepted
        del: map_option_eq_Some)
  finally show "map_sum exn_str (map img_url)
     (fst (extract_images_from_website photo_world Map.empty ''https://site.example/'' ?els
       ''<html></html>''))
     = Inr (''https://site.example/cat.png'' # replicate 9 ''https://site.example/dog.png'')"
    by (simp add: r)
  have v: "is_valid_url bracket_world u" for u
    by (simp add: is_valid_url_def bracket_world_def photo_world_def offline_world_def)
  have a: "download_accepted bracket_world ''https://site.example/cat.png''"
    by (simp add: download_accepted_def bracket_world_def photo_world_def offline_world_def
        photo_response_def content_type_ok_def content_length_ok_def dimensions_ok_def
        startswith_def)
  have i1: "\<exists>info. extract_image_info bracket_world (img_tag ''https://site.example/cat.png'')
              ''<html></html>'' ''https://site.example/'' = Inr (Some info)
            \<and> img_url info = ''https://site.example/cat.png''"
    by (simp add: extract_image_info_def v img_tag_def startswith_def skip_markers_def
        lower_def char_lower_def Let_def)
  have i2: "extract_image_info bracket_world (img_tag ''//[x'') ''<html></html>''
              ''https://site.example/'' = Inl (ValueError ''Invalid IPv6 URL'')"
    by (simp add: extract_image_info_def img_tag_def startswith_def bracket_world_def Let_def)
  from i1 obtain info where i: "extract_image_info bracket_world
      (img_tag ''https://site.example/cat.png'') ''<html></html>'' ''https://site.example/''
      = Inr (Some info)" "img_url info = ''https://site.example/cat.png''"
    by blast
  have a': "download_accepted bracket_world (img_url info)" using a i(2) by simp
  have n0: "(0::nat) < 10" and n1: "Suc 0 < 10" by simp_all
  show "fst (extract_images_from_website bracket_world Map.empty ''https://site.example/''
       [img_tag ''https://site.example/cat.png'', img_tag ''//[x''] ''<html></html>'')
     = Inl (ValueError ''Invalid IPv6 URL'')"
    unfolding extract_images_from_website_def images_loop_accepted [OF n0 i(1) a']
      images_loop_raise [OF n1 i2]
    by simp
qed

text \<open>
  Claim C6: a response whose \<open>Content-Length\<close> header reads as an integer above
  5 MiB is rejected, whatever its content type: \<open>download_and_save_image\<close> returns
  \<open>None\<close> and writes nothing to the cache.
\<close>

theorem oversized_content_length_rejected:
  assumes "http_get_image W image_url = Some r"
    and "resp_content_length r = Some v"
    and "py_int v = Some n"
    and "n > 5 * 1024 * 1024"
  shows "download_and_save_image W fs image_url filename = (None, fs)"
  using assms by (simp add: download_and_save_image_def Let_def)

theorem oversized_content_length_rejected_witness:
  "resp_content_type (photo_response ''https://site.example/cat.png'') = Some ''image/png''
   \<and> py_int ''6291456'' = Some 6291456
   \<and> download_and_save_image six_mib_world Map.empty ''https://site.example/cat.png''
         ''0000000000_00000000.png'' = (None, Map.empty)"
proof (intro conjI)
  let ?r = "(photo_response ''https://site.example/cat.png'')\<lparr>resp_content_length := Some ''6291456''\<rparr>"
  show "resp_content_type (photo_response ''https://site.example/cat.png'') = Some ''image/png''"
    by (simp add: photo_response_def)
  have h1: "http_get_image six_mib_world ''https://site.example/cat.png'' = Some ?r"
    by (simp add: six_mib_world_def)
  have h2: "resp_content_length ?r = Some ''6291456''" by simp
  show h3: "py_int ''6291456'' = Some 6291456"
    by (simp add: py_int_def is_int_space_def parse_unsigned_def is_digit_def digit_val_def)
  have h4: "(6291456::int) > 5 * 1024 * 1024" by simp
  show "download_and_save_image six_mib_world Map.empty ''https://site.example/cat.png''
         ''0000000000_00000000.png'' = (None, Map.empty)"
    by (rule oversized_content_length_rejected [OF h1 h2 h3 h4])
qed

text \<open>
  Claim C10: when the response has no \<open>Content-Length\<close> header, the size guard reads 0
  and passes; if the request succeeded with an image content type and the bytes decode
  to an allowed size, the body is written to the cache and its path returned, however
  long the body is.
\<close>

theorem missing_content_length_accepted:
  assumes "http_get_image W image_url = Some r"
    and "resp_status_ok r" and "resp_stream_ok r"
    and "resp_content_type r = Some ct" and "startswith ct ''image/''"
    and "resp_content_length r = None"
    and "image_size W (resp_body r) = Some (w, h)"
    and "50 \<le> w" and "w \<le> 3000" and "50 \<le> h" and "h \<le> 3000"
  shows "download_and_save_image W fs image_url filename
           = (Some (path_join CACHE_DIR filename),
              fs(path_join CACHE_DIR filename \<mapsto> resp_body r))"
  using assms by (simp add: download_and_save_image_def Let_def)

theorem missing_content_length_accepted_witness:
  "length (replicate 6291456 (CHR ''x'')) > 5 * 1024 * 1024
   \<and> download_and_save_image unsized_world Map.empty ''https://site.example/cat.png''
         ''0000000000_00000000.png''
       = (Some ''image_cache/0000000000_00000000.png'',
          [''image_cache/0000000000_00000000.png'' \<mapsto> replicate 6291456 (CHR ''x'')])"
proof (intro conjI)
  let ?r = "(photo_response ''https://site.example/cat.png'')\<lparr>resp_body := replicate 6291456 (CHR ''x'')\<rparr>"
  show "length (replicate 6291456 (CHR ''x'')) > 5 * 1024 * 1024" by simp
  have h1: "http_get_image unsized_world ''https://site.example/cat.png'' = Some ?r"
    by (simp add: unsized_world_def)
  have h2: "resp_status_ok ?r" and h3: "resp_stream_ok ?r"
    and h4: "resp_content_type ?r = Some ''image/png''"
    and h6: "resp_content_length ?r = None"
    by (simp_all add: photo_response_def)
  have h5: "startswith ''image/png'' ''image/''" by (simp add: startswith_def)
  have h7: "image_size unsized_world (resp_body ?r) = Some (640, 480)"
    by (simp add: unsized_world_def)
  have p: "path_join CACHE_DIR ''0000000000_00000000.png'' = ''image_cache/0000000000_00000000.png''"
    by (simp add: path_join_def CACHE_DIR_def startswith_def)
  have b: "resp_body ?r = replicate 6291456 (CHR ''x'')" by simp
  show "download_and_save_image unsized_world Map.empty ''https://site.example/cat.png''
         ''0000000000_00000000.png''
       = (Some ''image_cache/0000000000_00000000.png'',
          [''image_cache/0000000000_00000000.png'' \<mapsto> replicate 6291456 (CHR ''x'')])"
    using missing_content_length_accepted [OF h1 h2 h3 h4 h5 h6 h7, of Map.empty
        "''0000000000_00000000.png''"]
    unfolding p b by simp
qed

section \<open>Content extraction\<close>

lemma failed_to_extract_names_url: "str_in url (exn_str (failed_to_extract url m))"
proof -
  have "exn_str (failed_to_extract url m)
        = ''Failed to extract content from '' @ url @ ('': '' @ m)"
    by (simp add: failed_to_extract_def)
  then show ?thesis unfolding str_in_iff by blast
qed

lemma title_and_body_nonempty: "title_and_body t b \<noteq> []"
  by (simp add: title_and_body_def)

lemma assemble_content_empty:
  "assemble_content title descr headings main_text tables lsts = [] \<longleftrightarrow>
     title = [] \<and> descr = [] \<and> headings = [] \<and> main_text = [] \<and> tables = [] \<and> lsts = []"
  by (auto simp: assemble_content_def)

lemma assemble_content_empty':
  "[] = assemble_content title descr headings main_text tables lsts \<longleftrightarrow>
     title = [] \<and> descr = [] \<and> headings = [] \<and> main_text = [] \<and> tables = [] \<and> lsts = []"
  using assemble_content_empty [of title descr headings main_text tables lsts] by auto

lemma extract_images_cache_independent:
  "fst (extract_images_from_website W fs url els pt)
     = fst (extract_images_from_website W fs' url els pt)"
  unfolding extract_images_from_website_def by (rule images_loop_cache_independent)

text \<open>The result of \<open>extract_website_content\<close> on each of its paths.\<close>

lemma extract_other_error:
  assumes "is_valid_url W url" and "article_fetch W url = ArticleOtherError m"
  shows "fst (extract_website_content W fs url) = Inl (failed_to_extract url m)"
  using assms by (simp add: extract_website_content_def)

lemma extract_fallback_page_failed:
  assumes "is_valid_url W url" and "article_fetch W url = ArticleException m"
    and "http_get_page W url = PageFailed m'"
  shows "fst (extract_website_content W fs url) = Inl (failed_to_extract url m')"
  using assms by (simp add: extract_website_content_def)

lemma extract_fallback_images_raise:
  assumes "is_valid_url W url" and "article_fetch W url = ArticleException m"
    and "http_get_page W url = PageFetched html"
    and "fst (extract_images_from_website W fs url (sp_imgs (soup_parse W fallback_tags html)) html) = Inl e"
  shows "fst (extract_website_content W fs url) = Inl (failed_to_extract url (exn_str e))"
  using assms
  by (cases "extract_images_from_website W fs url (sp_imgs (soup_parse W fallback_tags html)) html")
     (simp add: extract_website_content_def Let_def)

lemma extract_fallback_ok:
  assumes "is_valid_url W url" and "article_fetch W url = ArticleException m"
    and "http_get_page W url = PageFetched html"
    and "fst (extract_images_from_website W fs url (sp_imgs (soup_parse W fallback_tags html)) html) = Inr images"
  shows "\<exists>md. fst (extract_website_content W fs url)
                = Inr (title_and_body
                         (fmt_opt (case sp_title (soup_parse W fallback_tags html) of
                                     None \<Rightarrow> Some ''Unknown Title'' | Some s \<Rightarrow> s))
                         (case sp_body_text (soup_parse W fallback_tags html) of
                            None \<Rightarrow> [] | Some b \<Rightarrow> clean_text b), md)"
  using assms
  by (cases "extract_images_from_website W fs url (sp_imgs (soup_parse W fallback_tags html)) html")
     (simp add: extract_website_content_def Let_def)

lemma extract_degraded_page_failed:
  assumes "is_valid_url W url" and "article_fetch W url = ArticleParsed a"
    and "http_get_page W url = PageFailed m"
  shows "\<exists>md. fst (extract_website_content W fs url)
                = Inr (title_and_body (art_title a) (clean_text (art_text a)), md)"
  using assms by (simp add: extract_website_content_def Let_def)

lemma extract_degraded_images_raise:
  assumes "is_valid_url W url" and "article_fetch W url = ArticleParsed a"
    and "http_get_page W url = PageFetched html"
    and "fst (extract_images_from_website W fs url (sp_imgs (soup_parse W article_tags html)) html) = Inl e"
  shows "\<exists>md. fst (extract_website_content W fs url)
                = Inr (title_and_body (art_title a) (clean_text (art_text a)), md)"
  using assms
  by (cases "extract_images_from_website W fs url (sp_imgs (soup_parse W article_tags html)) html")
     (simp add: extract_website_content_def Let_def)

lemma extract_enriched:
  assumes "is_valid_url W url" and "article_fetch W url = ArticleParsed a"
    and "http_get_page W url = PageFetched html"
    and "fst (extract_images_from_website W fs url (sp_imgs (soup_parse W article_tags html)) html) = Inr images"
  shows "\<exists>md. fst (extract_website_content W fs url)
                = Inr (assemble_content (art_title a)
                         (case sp_meta_description (soup_parse W article_tags html) of
                            None \<Rightarrow> [] | Some v \<Rightarrow> v)
                         (headings_loop (sp_headings (soup_parse W article_tags html)) [])
                         (clean_text (art_text a))
                         (tables_loop 0 (sp_tables (soup_parse W article_tags html)))
                         (lists_loop (sp_lists (soup_parse W article_tags html))), md)"
  using assms
  by (cases "extract_images_from_website W fs url (sp_imgs (soup_parse W article_tags html)) html")
     (simp add: extract_website_content_def Let_def)

text \<open>
  Claim C4, as stated, fails twice.  On a valid URL whose server answers with a blank
  page (\<open>blank_world\<close>) the function returns the empty string as content, with
  success: every part of \<open>enhanced_content\<close> is guarded by a test for emptiness, and the
  empty result is left to the caller (line 861).  And when the article reader raises an
  exception that is not an \<open>ArticleException\<close> (\<open>crash_world\<close>), the function fails in
  the clause \<open>except Exception\<close> without trying the raw-markup fallback, although the
  server answers.
\<close>

theorem extract_outcome_counterexample:
  "is_valid_url blank_world ''https://site.example''
   \<and> map_sum exn_str fst
         (fst (extract_website_content blank_world Map.empty ''https://site.example'')) = Inr []
   \<and> is_valid_url crash_world ''https://site.example''
   \<and> http_get_page crash_world ''https://site.example''
       = PageFetched ''<html><body>Hello</body></html>''
   \<and> map_sum exn_str fst
         (fst (extract_website_content crash_world Map.empty ''https://site.example''))
       = Inl ''Failed to extract content from https://site.example: boom''"
  by (simp add: is_valid_url_def blank_world_def crash_world_def offline_world_def
      extract_website_content_def extract_images_from_website_def clean_text_def strip_def
      assemble_content_def failed_to_extract_def Let_def)

text \<open>
  Claim C4, amended.  For a valid URL, \<open>extract_website_content\<close> fails exactly when
  the article reader raises an exception other than \<open>ArticleException\<close>, or raises
  \<open>ArticleException\<close> and the raw-markup fallback fails too, by a failed page fetch or by
  an exception of its image extraction; the message of the error names the URL; and
  returned content is empty only on the enriched path (article parsed, page fetched,
  images extracted), exactly when the title, the description, the headings, the main
  text, the tables and the lists are all empty.
\<close>

theorem extract_outcome:
  assumes "is_valid_url W url"
  shows "((\<exists>e. fst (extract_website_content W fs url) = Inl e) \<longleftrightarrow>
            (\<exists>m. article_fetch W url = ArticleOtherError m)
            \<or> ((\<exists>m. article_fetch W url = ArticleException m)
                \<and> ((\<exists>m. http_get_page W url = PageFailed m)
                    \<or> (\<exists>html e. http_get_page W url = PageFetched html
                          \<and> fst (extract_images_from_website W fs url (sp_imgs (soup_parse W fallback_tags html)) html) = Inl e))))
    \<and> (\<forall>e. fst (extract_website_content W fs url) = Inl e \<longrightarrow> str_in url (exn_str e))
    \<and> (\<forall>content md. fst (extract_website_content W fs url) = Inr (content, md) \<longrightarrow>
          (content = [] \<longleftrightarrow>
             (\<exists>a html images. article_fetch W url = ArticleParsed a
                \<and> http_get_page W url = PageFetched html
                \<and> fst (extract_images_from_website W fs url (sp_imgs (soup_parse W article_tags html)) html) = Inr images
                \<and> art_title a = [] \<and> clean_text (art_text a) = []
                \<and> sp_meta_description (soup_parse W article_tags html) \<in> {None, Some []}
                \<and> headings_loop (sp_headings (soup_parse W article_tags html)) [] = []
                \<and> tables_loop 0 (sp_tables (soup_parse W article_tags html)) = []
                \<and> lists_loop (sp_lists (soup_parse W article_tags html)) = [])))"
proof (cases "article_fetch W url")
  case (ArticleParsed a)
  show ?thesis
  proof (cases "http_get_page W url")
    case (PageFetched html)
    show ?thesis
    proof (cases "fst (extract_images_from_website W fs url (sp_imgs (soup_parse W article_tags html)) html)")
      case (Inr images)
      from extract_enriched [OF assms ArticleParsed PageFetched Inr]
      show ?thesis using ArticleParsed PageFetched Inr
        by (auto simp: assemble_content_empty assemble_content_empty' split: option.splits)
    next
      case (Inl e)
      from extract_degraded_images_raise [OF assms ArticleParsed PageFetched Inl]
      show ?thesis using ArticleParsed PageFetched Inl
        by (auto simp: title_and_body_nonempty title_and_body_nonempty [symmetric])
    qed
  next
    case (PageFailed m)
    from extract_degraded_page_failed [OF assms ArticleParsed PageFailed, of fs]
    show ?thesis using ArticleParsed PageFailed
      by (auto simp: title_and_body_nonempty title_and_body_nonempty [symmetric])
  qed
next
  case (ArticleException m)
  show ?thesis
  proof (cases "http_get_page W url")
    case (PageFetched html)
    show ?thesis
    proof (cases "fst (extract_images_from_website W fs url (sp_imgs (soup_parse W fallback_tags html)) html)")
      case (Inr images)
      from extract_fallback_ok [OF assms ArticleException PageFetched Inr]
      show ?thesis using ArticleException PageFetched Inr
        by (auto simp: title_and_body_nonempty title_and_body_nonempty [symmetric])
    next
      case (Inl e)
      from extract_fallback_images_raise [OF assms ArticleException PageFetched Inl]
      show ?thesis using ArticleException PageFetched Inl
        by (auto simp: failed_to_extract_names_url)
    qed
  next
    case (PageFailed m')
    from extract_fallback_page_failed [OF assms ArticleException PageFailed, of fs]
    show ?thesis using ArticleException PageFailed
      by (auto simp: failed_to_extract_names_url)
  qed
next
  case (ArticleOtherError m)
  from extract_other_error [OF assms ArticleOtherError, of fs]
  show ?thesis using ArticleOtherError
    by (auto simp: failed_to_extract_names_url)
qed

theorem extract_outcome_witness:
  "is_valid_url example_world ''https://example.com''
   \<and> \<not> (\<exists>e. fst (extract_website_content example_world Map.empty ''https://example.com'')
                = Inl e)
   \<and> map_sum exn_str fst
         (fst (extract_website_content example_world Map.empty ''https://example.com''))
       = Inr (''TITLE: Example Domain'' @ [nl, nl] @ ''MAIN CONTENT:'' @ [nl]
              @ ''This domain is for use in illustrative examples.'' @ [nl, nl])
   \<and> is_valid_url broken_src_world ''https://site.example''
   \<and> fst (extract_website_content broken_src_world Map.empty ''https://site.example'')
       = Inl (Error ''Failed to extract content from https://site.example: Invalid IPv6 URL'')"
proof (intro conjI)
  show v: "is_valid_url example_world ''https://example.com''"
    by (simp add: is_valid_url_def example_world_def offline_world_def)
  have a: "\<not> ((\<exists>m. article_fetch example_world ''https://example.com'' = ArticleOtherError m)
            \<or> ((\<exists>m. article_fetch example_world ''https://example.com'' = ArticleException m)
                \<and> ((\<exists>m. http_get_page example_world ''https://example.com'' = PageFailed m)
                    \<or> (\<exists>html e. http_get_page example_world ''https://example.com''
                            = PageFetched html
                          \<and> fst (extract_images_from_website example_world Map.empty
                                 ''https://example.com''
                                 (sp_imgs (soup_parse example_world fallback_tags html)) html)
                              = Inl e))))"
    by (simp add: example_world_def)
  show "\<not> (\<exists>e. fst (extract_website_content example_world Map.empty ''https://example.com'')
                = Inl e)"
    using extract_outcome [OF v, of Map.empty, THEN conjunct1] a by (simp only: not_False_eq_True)
  show "map_sum exn_str fst
         (fst (extract_website_content example_world Map.empty ''https://example.com''))
       = Inr (''TITLE: Example Domain'' @ [nl, nl] @ ''MAIN CONTENT:'' @ [nl]
              @ ''This domain is for use in illustrative examples.'' @ [nl, nl])"
    by (simp add: is_valid_url_def example_world_def offline_world_def
        extract_website_content_def extract_images_from_website_def clean_text_def strip_def
        is_space_def nl_def assemble_content_def Let_def)
  show "is_valid_url broken_src_world ''https://site.example''"
    by (simp add: is_valid_url_def broken_src_world_def offline_world_def)
  show "fst (extract_website_content broken_src_world Map.empty ''https://site.example'')
       = Inl (Error ''Failed to extract content from https://site.example: Invalid IPv6 URL'')"
    by (simp add: is_valid_url_def broken_src_world_def offline_world_def
        extract_website_content_def extract_images_from_website_def extract_image_info_def
        startswith_def failed_to_extract_def Let_def)
qed

section \<open>The batch of submitted URLs\<close>

lemma extract_cache_independent:
  "fst (extract_website_content W fs url) = fst (extract_website_content W fs' url)"
proof -
  have i: "fst (extract_images_from_website W fs url els pt)
           = fst (extract_images_from_website W fs' url els pt)" for els pt
    by (rule extract_images_cache_independent)
  show ?thesis
  proof (cases "article_fetch W url")
    case (ArticleParsed a)
    show ?thesis
    proof (cases "http_get_page W url")
      case (PageFetched html)
      show ?thesis
        using ArticleParsed PageFetched
          i [of "sp_imgs (soup_parse W article_tags html)" html]
        by (cases "extract_images_from_website W fs url
                     (sp_imgs (soup_parse W article_tags html)) html";
            cases "extract_images_from_website W fs' url
                     (sp_imgs (soup_parse W article_tags html)) html")
           (auto simp: extract_website_content_def Let_def split: sum.splits)
    next
      case (PageFailed m)
      with ArticleParsed show ?thesis by (simp add: extract_website_content_def Let_def)
    qed
  next
    case (ArticleException m)
    show ?thesis
    proof (cases "http_get_page W url")
      case (PageFetched html)
      show ?thesis
        using ArticleException PageFetched
          i [of "sp_imgs (soup_parse W fallback_tags html)" html]
        by (cases "extract_images_from_website W fs url
                     (sp_imgs (soup_parse W fallback_tags html)) html";
            cases "extract_images_from_website W fs' url
                     (sp_imgs (soup_parse W fallback_tags html)) html")
           (auto simp: extract_website_content_def Let_def split: sum.splits)
    next
      case (PageFailed m')
      with ArticleException show ?thesis by (simp add: extract_website_content_def Let_def)
    qed
  next
    case (ArticleOtherError m)
    then show ?thesis by (simp add: extract_website_content_def)
  qed
qed

lemma index_url_cache_independent:
  "fst (index_url W cs co fs url) = fst (index_url W cs co fs' url)"
  using extract_cache_independent [of W fs url fs']
  by (cases "extract_website_content W fs url"; cases "extract_website_content W fs' url")
     (auto simp: index_url_def Let_def split: sum.splits)

lemma process_url_session:
  "fst (process_url W cs co s u) =
     (case url_outcome W cs co u of
        Inr (vdb, md) \<Rightarrow>
          (fst s)\<lparr>websites := AList.update u vdb (websites (fst s)),
                   website_metadata := AList.update u md (website_metadata (fst s))\<rparr>
      | Inl e \<Rightarrow>
          (fst s)\<lparr>processing_errors := AList.update u (exn_str e) (processing_errors (fst s))\<rparr>)"
proof -
  have "fst (index_url W cs co (snd s) u) = url_outcome W cs co u"
    unfolding url_outcome_def by (rule index_url_cache_independent)
  then show ?thesis
    by (cases "index_url W cs co (snd s) u") (auto simp: process_url_def split: sum.splits)
qed

lemma batch_websites:
  "map_of (websites (fst (foldl (process_url W cs co) s us))) v =
     (if v \<in> set us then
        (case url_outcome W cs co v of
           Inr (vdb, md) \<Rightarrow> Some vdb
         | Inl e \<Rightarrow> map_of (websites (fst s)) v)
      else map_of (websites (fst s)) v)"
proof (induction us arbitrary: s)
  case Nil
  show ?case by simp
next
  case (Cons u us)
  show ?case
    unfolding foldl_Cons Cons.IH [of "process_url W cs co s u"]
    by (auto simp: process_url_session update_conv' split: sum.splits)
qed

lemma batch_metadata:
  "map_of (website_metadata (fst (foldl (process_url W cs co) s us))) v =
     (if v \<in> set us then
        (case url_outcome W cs co v of
           Inr (vdb, md) \<Rightarrow> Some md
         | Inl e \<Rightarrow> map_of (website_metadata (fst s)) v)
      else map_of (website_metadata (fst s)) v)"
proof (induction us arbitrary: s)
  case Nil
  show ?case by simp
next
  case (Cons u us)
  show ?case
    unfolding foldl_Cons Cons.IH [of "process_url W cs co s u"]
    by (auto simp: process_url_session update_conv' split: sum.splits)
qed

lemma batch_errors:
  "map_of (processing_errors (fst (foldl (process_url W cs co) s us))) v =
     (if v \<in> set us then
        (case url_outcome W cs co v of
           Inl e \<Rightarrow> Some (exn_str e)
         | Inr r \<Rightarrow> map_of (processing_errors (fst s)) v)
      else map_of (processing_errors (fst s)) v)"
proof (induction us arbitrary: s)
  case Nil
  show ?case by simp
next
  case (Cons u us)
  show ?case
    unfolding foldl_Cons Cons.IH [of "process_url W cs co s u"]
    by (auto simp: process_url_session update_conv' split: sum.splits)
qed

lemma submit_fields:
  assumes "us \<noteq> []"
  shows "websites (fst (submit_urls W cs co s us))
           = websites (fst (foldl (process_url W cs co)
               ((fst s)\<lparr>websites := [], website_metadata := [], processing_errors := []\<rparr>,
                Map.empty) us))"
    and "website_metadata (fst (submit_urls W cs co s us))
           = website_metadata (fst (foldl (process_url W cs co)
               ((fst s)\<lparr>websites := [], website_metadata := [], processing_errors := []\<rparr>,
                Map.empty) us))"
    and "processing_errors (fst (submit_urls W cs co s us))
           = processing_errors (fst (foldl (process_url W cs co)
               ((fst s)\<lparr>websites := [], website_metadata := [], processing_errors := []\<rparr>,
                Map.empty) us))"
  using assms by (simp_all add: submit_urls_def Let_def)

lemma submit_dicts:
  assumes "us \<noteq> []"
  shows "map_of (websites (fst (submit_urls W cs co s us))) v =
           (if v \<in> set us then
              (case url_outcome W cs co v of Inr (vdb, md) \<Rightarrow> Some vdb | Inl e \<Rightarrow> None)
            else None)"
    and "map_of (website_metadata (fst (submit_urls W cs co s us))) v =
           (if v \<in> set us then
              (case url_outcome W cs co v of Inr (vdb, md) \<Rightarrow> Some md | Inl e \<Rightarrow> None)
            else None)"
    and "map_of (processing_errors (fst (submit_urls W cs co s us))) v =
           (if v \<in> set us then
              (case url_outcome W cs co v of Inl e \<Rightarrow> Some (exn_str e) | Inr r \<Rightarrow> None)
            else None)"
  unfolding submit_fields [OF assms] batch_websites batch_metadata batch_errors
  by (simp_all split: sum.splits)

lemma empty_chunks_outcome:
  assumes "is_valid_url W u"
    and "fst (extract_website_content W Map.empty u) = Inr (content, md)"
    and "split_text W cs co content = Inr []"
  shows "url_outcome W cs co u = Inl (ValueError ''No content could be extracted'')"
  using assms
  by (cases "extract_website_content W Map.empty u")
     (simp add: url_outcome_def index_url_def)

lemma keys_map_of: "k \<in> fst ` set al \<longleftrightarrow> map_of al k \<noteq> None"
  by (simp add: map_of_eq_None_iff)

text \<open>
  Claim C9.  For a non-empty batch, started in any session \<open>s\<close>:
  a valid URL whose extraction succeeds and whose assembled text splits into zero
  chunks ends in the error map with the message of the empty-content error, and is
  not indexed; every URL of the batch ends with exactly the record that its own
  \<open>try\<close> block yields (\<open>url_outcome\<close>, which depends on the URL alone), whatever the
  other URLs of the batch do; and the indexed sources and the keys of the error map
  together are exactly the URLs of the batch, no URL being in both.  The handler is a
  total function: the batch always completes.
\<close>

theorem batch_completes_with_errors_recorded:
  assumes "url_list \<noteq> []"
  shows
   "(\<forall>u \<in> set url_list. \<forall>fs content md.
        is_valid_url W u \<and> fst (extract_website_content W fs u) = Inr (content, md)
          \<and> split_text W cs co content = Inr [] \<longrightarrow>
        map_of (processing_errors (fst (submit_urls W cs co s url_list))) u
          = Some ''No content could be extracted''
        \<and> map_of (websites (fst (submit_urls W cs co s url_list))) u = None)
    \<and> (\<forall>u \<in> set url_list.
          (case url_outcome W cs co u of
             Inr (vdb, md) \<Rightarrow>
               map_of (websites (fst (submit_urls W cs co s url_list))) u = Some vdb
               \<and> map_of (website_metadata (fst (submit_urls W cs co s url_list))) u = Some md
               \<and> map_of (processing_errors (fst (submit_urls W cs co s url_list))) u = None
           | Inl e \<Rightarrow>
               map_of (websites (fst (submit_urls W cs co s url_list))) u = None
               \<and> map_of (processing_errors (fst (submit_urls W cs co s url_list))) u
                   = Some (exn_str e)))
    \<and> fst ` set (websites (fst (submit_urls W cs co s url_list)))
        \<union> fst ` set (processing_errors (fst (submit_urls W cs co s url_list)))
        = set url_list
    \<and> fst ` set (websites (fst (submit_urls W cs co s url_list)))
        \<inter> fst ` set (processing_errors (fst (submit_urls W cs co s url_list))) = {}"
proof -
  let ?S = "fst (submit_urls W cs co s url_list)"
  note d = submit_dicts [OF assms, of W cs co s]
  have one: "map_of (processing_errors ?S) u = Some ''No content could be extracted''
             \<and> map_of (websites ?S) u = None"
    if "u \<in> set url_list" "is_valid_url W u"
       "fst (extract_website_content W fs u) = Inr (content, md)"
       "split_text W cs co content = Inr []" for u fs content md
  proof -
    have "fst (extract_website_content W Map.empty u) = Inr (content, md)"
      using that(3) extract_cache_independent [of W Map.empty u fs] by simp
    with that(2) have "url_outcome W cs co u = Inl (ValueError ''No content could be extracted'')"
      using that(4) by (rule empty_chunks_outcome)
    then show ?thesis using that(1) by (simp add: d)
  qed
  have two: "case url_outcome W cs co u of
             Inr (vdb, md) \<Rightarrow>
               map_of (websites ?S) u = Some vdb \<and> map_of (website_metadata ?S) u = Some md
               \<and> map_of (processing_errors ?S) u = None
           | Inl e \<Rightarrow>
               map_of (websites ?S) u = None
               \<and> map_of (processing_errors ?S) u = Some (exn_str e)"
    if "u \<in> set url_list" for u
    using that by (simp add: d split: sum.splits)
  have kw: "k \<in> fst ` set (websites ?S) \<longleftrightarrow> k \<in> set url_list \<and> \<not> isl (url_outcome W cs co k)"
    for k
    unfolding keys_map_of d by (simp split: sum.splits)
  have ke: "k \<in> fst ` set (processing_errors ?S)
              \<longleftrightarrow> k \<in> set url_list \<and> isl (url_outcome W cs co k)" for k
    unfolding keys_map_of d by (simp split: sum.splits)
  have three: "fst ` set (websites ?S) \<union> fst ` set (processing_errors ?S) = set url_list"
  proof (rule set_eqI)
    fix k
    show "k \<in> fst ` set (websites ?S) \<union> fst ` set (processing_errors ?S)
            \<longleftrightarrow> k \<in> set url_list"
      unfolding Un_iff kw ke by blast
  qed
  have four: "fst ` set (websites ?S) \<inter> fst ` set (processing_errors ?S) = {}"
  proof (rule set_eqI)
    fix k
    show "k \<in> fst ` set (websites ?S) \<inter> fst ` set (processing_errors ?S) \<longleftrightarrow> k \<in> {}"
      unfolding Int_iff kw ke by blast
  qed
  from one two three four show ?thesis by blast
qed

lemma batch_world_valid: "is_valid_url batch_world u \<longleftrightarrow> drop 8 u \<noteq> []"
  by (simp add: is_valid_url_def batch_world_def example_world_def offline_world_def)

lemma batch_world_fields:
  "get_domain batch_world u = drop 8 u"
  "article_fetch batch_world u =
     (if u = ''https://blank.example''
      then ArticleParsed \<lparr>art_title = [], art_text = [], art_authors = [], art_publish_date = None\<rparr>
      else ArticleParsed \<lparr>art_title = ''Example Domain'',
             art_text = ''This domain is for use in illustrative examples.'',
             art_authors = [], art_publish_date = None\<rparr>)"
  "http_get_page batch_world u = PageFetched ''<html></html>''"
  "soup_parse batch_world tags t =
     \<lparr>sp_headings = [], sp_meta_description = None, sp_meta_keywords = None, sp_tables = [],
      sp_lists = [], sp_imgs = [], sp_title = None, sp_body_text = None\<rparr>"
  "split_text batch_world cs co content = Inr (if content = [] then [] else [content])"
  "chroma_from_documents batch_world docs path = Inr (first_docs_index docs)"
  by (simp_all add: get_domain_def batch_world_def example_world_def offline_world_def)

theorem batch_completes_with_errors_recorded_witness:
  "map_of (processing_errors (fst (submit_urls batch_world 500 200 (initial_session, Map.empty)
       [''https://example.com'', ''https://blank.example'', ''https://example.org''])))
     ''https://blank.example'' = Some ''No content could be extracted''
   \<and> map_of (websites (fst (submit_urls batch_world 500 200 (initial_session, Map.empty)
       [''https://example.com'', ''https://blank.example'', ''https://example.org''])))
     ''https://blank.example'' = None
   \<and> map fst (websites (fst (submit_urls batch_world 500 200 (initial_session, Map.empty)
       [''https://example.com'', ''https://blank.example'', ''https://example.org''])))
     = [''https://example.com'', ''https://example.org'']
   \<and> processing_errors (fst (submit_urls batch_world 500 200 (initial_session, Map.empty)
       [''https://example.com'', ''https://blank.example'', ''https://example.org'']))
     = [(''https://blank.example'', ''No content could be extracted'')]"
proof -
  let ?us = "[''https://example.com'', ''https://blank.example'', ''https://example.org'']"
  let ?S = "fst (submit_urls batch_world 500 200 (initial_session, Map.empty) ?us)"
  have ne: "?us \<noteq> []" by simp
  have m: "''https://blank.example'' \<in> set ?us" by simp
  have v: "is_valid_url batch_world ''https://blank.example''"
    by (simp add: batch_world_valid)
  have x: "fst (extract_website_content batch_world Map.empty ''https://blank.example'')
           = Inr ([], \<lparr>md_title = Some [], md_authors = Some [], md_publish_date = None,
                        md_url = ''https://blank.example'', md_domain = ''blank.example'',
                        md_description = Some [], md_keywords = Some [],
                        md_images = Some []\<rparr>)"
    by (simp add: extract_website_content_def v extract_images_from_website_def
        batch_world_fields clean_text_def strip_def assemble_content_def Let_def)
  have sp: "split_text batch_world 500 200 [] = Inr []"
    by (simp add: batch_world_fields)
  from batch_completes_with_errors_recorded [OF ne, of batch_world 500 200
      "(initial_session, Map.empty)", THEN conjunct1, rule_format, OF m, OF conjI [OF v conjI [OF x sp]]]
  have a: "map_of (processing_errors ?S) ''https://blank.example''
             = Some ''No content could be extracted''
           \<and> map_of (websites ?S) ''https://blank.example'' = None" .
  have o1: "url_outcome batch_world 500 200 ''https://blank.example''
            = Inl (ValueError ''No content could be extracted'')"
    by (rule empty_chunks_outcome [OF v x sp])
  have o2: "\<exists>md. url_outcome batch_world 500 200 u = Inr (first_docs_index
            (make_documents (drop 8 u) u md
              [''TITLE: Example Domain'' @ [nl, nl] @ ''MAIN CONTENT:'' @ [nl]
                @ ''This domain is for use in illustrative examples.'' @ [nl, nl]]), md)"
    if "u \<noteq> ''https://blank.example''" "drop 8 u \<noteq> []" for u
    using that
    by (simp add: url_outcome_def index_url_def batch_world_valid extract_website_content_def
        extract_images_from_website_def batch_world_fields
        clean_text_def strip_def is_space_def nl_def assemble_content_def Let_def)
  have b: "map fst (websites ?S) = [''https://example.com'', ''https://example.org'']"
    using o2 [of "''https://example.com''"] o2 [of "''https://example.org''"] o1
    by (auto simp: submit_urls_def initial_session_def process_url_session Let_def)
  have c: "processing_errors ?S = [(''https://blank.example'', ''No content could be extracted'')]"
    using o2 [of "''https://example.com''"] o2 [of "''https://example.org''"] o1
    by (auto simp: submit_urls_def initial_session_def process_url_session Let_def)
  from a b c show ?thesis by blast
qed

text \<open>
  The sessions that the handler builds are those that the chat handler expects: the
  submitted URLs are non-empty strings, every indexed source is one of them, and the
  two dictionaries \<open>websites\<close> and \<open>website_metadata\<close> have the same keys.
\<close>

lemma url_list_of_nonempty: "url \<in> set (url_list_of urls) \<Longrightarrow> url \<noteq> []"
  by (auto simp: url_list_of_def)

lemma submit_session_wellformed:
  assumes "us \<noteq> []"
  shows "set (map fst (websites (fst (submit_urls W cs co s us)))) \<subseteq> set us"
    and "map_of (website_metadata (fst (submit_urls W cs co s us))) u = None
           \<longleftrightarrow> map_of (websites (fst (submit_urls W cs co s us))) u = None"
proof -
  show "set (map fst (websites (fst (submit_urls W cs co s us)))) \<subseteq> set us"
  proof
    fix k assume "k \<in> set (map fst (websites (fst (submit_urls W cs co s us))))"
    then have "map_of (websites (fst (submit_urls W cs co s us))) k \<noteq> None"
      by (simp add: keys_map_of)
    then show "k \<in> set us"
      unfolding submit_dicts [OF assms] by (simp split: if_splits)
  qed
  show "map_of (website_metadata (fst (submit_urls W cs co s us))) u = None
           \<longleftrightarrow> map_of (websites (fst (submit_urls W cs co s us))) u = None"
    unfolding submit_dicts [OF assms] by (simp split: sum.splits)
qed


section \<open>The chat handler\<close>

lemma example_world_domain: "get_domain example_world u = drop 8 u"
  by (simp add: get_domain_def example_world_def)

lemma two_sources_keys:
  "map fst (websites two_sources) = [''https://alpha.example'', ''https://beta.example'']"
  by (simp add: two_sources_def initial_session_def)

lemma find_target_None:
  "find_target W q urls = None \<longleftrightarrow> (\<forall>u \<in> set urls. \<not> domain_mentioned W q u)"
  by (induction urls) (auto simp: domain_mentioned_def)

lemma find_target_first:
  assumes "urls = pre @ t # post" and "domain_mentioned W q t"
    and "\<forall>u \<in> set pre. \<not> domain_mentioned W q u"
  shows "find_target W q urls = Some t"
  using assms by (induction pre arbitrary: urls) (auto simp: domain_mentioned_def)

text \<open>
  Claim C2, as stated, fails: when the question contains the domains of two indexed
  sources, the loop of lines 1021-1025 stops at the first of them (\<open>break\<close>), and only
  that source is searched, not all of them.
\<close>

theorem source_targeting_counterexample:
  "domain_mentioned example_world ''Compare alpha.example and beta.example''
     ''https://alpha.example''
   \<and> domain_mentioned example_world ''Compare alpha.example and beta.example''
     ''https://beta.example''
   \<and> map fst (websites two_sources) = [''https://alpha.example'', ''https://beta.example'']
   \<and> websites_to_search example_world two_sources ''Compare alpha.example and beta.example''
       = [''https://alpha.example'']"
  by (simp add: domain_mentioned_def websites_to_search_def two_sources_keys
      example_world_domain lower_def char_lower_def startswith_def)

text \<open>
  Claim C2, amended.  The indexed URLs being non-empty strings: if the question
  contains (case-insensitively) the domain of no indexed source, all indexed sources
  are searched; if it contains the domain of at least one, only the first such source,
  in the order in which the sources were indexed, is searched; in particular, if it
  contains the domain of exactly one indexed source, only that source is searched.
\<close>

theorem source_targeting:
  assumes "\<forall>url \<in> set (map fst (websites st)). url \<noteq> []"
  shows "((\<forall>u \<in> set (map fst (websites st)). \<not> domain_mentioned W q u) \<longrightarrow>
            websites_to_search W st q = map fst (websites st))
    \<and> (\<forall>pre t post. map fst (websites st) = pre @ t # post \<and> domain_mentioned W q t
           \<and> (\<forall>u \<in> set pre. \<not> domain_mentioned W q u) \<longrightarrow>
         websites_to_search W st q = [t])
    \<and> (\<forall>t \<in> set (map fst (websites st)).
         domain_mentioned W q t
           \<and> (\<forall>u \<in> set (map fst (websites st)). domain_mentioned W q u \<longrightarrow> u = t) \<longrightarrow>
         websites_to_search W st q = [t])"
proof -
  let ?keys = "map fst (websites st)"
  have none: "websites_to_search W st q = ?keys"
    if "\<forall>u \<in> set ?keys. \<not> domain_mentioned W q u"
    using that find_target_None [of W q ?keys] by (simp add: websites_to_search_def)
  have first: "websites_to_search W st q = [t]"
    if "?keys = pre @ t # post" "domain_mentioned W q t"
       "\<forall>u \<in> set pre. \<not> domain_mentioned W q u" for pre t post
  proof -
    have "find_target W q ?keys = Some t" using that by (rule find_target_first)
    moreover have "t \<noteq> []" using assms that(1) by simp
    ultimately show ?thesis by (simp add: websites_to_search_def)
  qed
  have only: "websites_to_search W st q = [t]"
    if "t \<in> set ?keys" "domain_mentioned W q t"
       "\<forall>u \<in> set ?keys. domain_mentioned W q u \<longrightarrow> u = t" for t
  proof -
    from split_list_first [OF that(1)]
    obtain pre post where sp: "?keys = pre @ t # post" "t \<notin> set pre"
      by blast
    have "\<forall>u \<in> set pre. \<not> domain_mentioned W q u"
      using that(3) sp by auto
    with sp(1) that(2) show ?thesis by (rule first)
  qed
  from none first only show ?thesis by blast
qed

theorem source_targeting_witness:
  "websites_to_search example_world two_sources ''What does BETA.example say?''
     = [''https://beta.example'']
   \<and> websites_to_search example_world two_sources ''What is this website about?''
     = [''https://alpha.example'', ''https://beta.example'']"
proof (intro conjI)
  have k: "\<forall>url \<in> set (map fst (websites two_sources)). url \<noteq> []"
    by (simp add: two_sources_keys)
  note t = source_targeting [OF k, of example_world]
  have m: "''https://beta.example'' \<in> set (map fst (websites two_sources))"
    by (simp add: two_sources_keys)
  have l1: "lower ''What does BETA.example say?'' = ''what does beta.example say?''"
    and l2: "lower ''What is this website about?'' = ''what is this website about?''"
    and la: "lower ''alpha.example'' = ''alpha.example''"
    and lb: "lower ''beta.example'' = ''beta.example''"
    by (simp_all add: lower_def char_lower_def)
  have mb: "domain_mentioned example_world ''What does BETA.example say?'' ''https://beta.example''"
    by (simp add: domain_mentioned_def example_world_domain l1 lb startswith_def)
  have ma: "\<not> domain_mentioned example_world ''What does BETA.example say?''
              ''https://alpha.example''"
    by (simp add: domain_mentioned_def example_world_domain l1 la startswith_def)
  have b: "domain_mentioned example_world ''What does BETA.example say?'' ''https://beta.example''
           \<and> (\<forall>u \<in> set (map fst (websites two_sources)).
                 domain_mentioned example_world ''What does BETA.example say?'' u
                   \<longrightarrow> u = ''https://beta.example'')"
    by (simp add: two_sources_keys ma mb)
  show "websites_to_search example_world two_sources ''What does BETA.example say?''
          = [''https://beta.example'']"
    by (rule t [of "''What does BETA.example say?''", THEN conjunct2, THEN conjunct2,
          THEN bspec, OF m, THEN mp, OF b])
  have na: "\<not> domain_mentioned example_world ''What is this website about?''
              ''https://alpha.example''"
    by (simp add: domain_mentioned_def example_world_domain l2 la startswith_def)
  have nb: "\<not> domain_mentioned example_world ''What is this website about?''
              ''https://beta.example''"
    by (simp add: domain_mentioned_def example_world_domain l2 lb startswith_def)
  have n: "\<forall>u \<in> set (map fst (websites two_sources)).
             \<not> domain_mentioned example_world ''What is this website about?'' u"
    by (simp add: two_sources_keys na nb)
  show "websites_to_search example_world two_sources ''What is this website about?''
          = [''https://alpha.example'', ''https://beta.example'']"
    using t [of "''What is this website about?''", THEN conjunct1, THEN mp, OF n]
    by (simp only: two_sources_keys)
qed

lemma rewrite_query_image:
  "any_term_in image_terms q \<Longrightarrow> rewrite_query W q = q @ image_suffix"
  by (simp add: rewrite_query_def Let_def)

text \<open>
  Claim C3, as stated, fails: the assignment of line 1049 builds the search query from
  \<open>user_query\<close>, as the two assignments before it do, so for a question with an image
  keyword the image rewrite replaces the summary (or specific-topic) rewrite instead of
  adding to it.  The question \<open>Show me a summary\<close> matches a summary keyword and an
  image keyword; its search query holds the image terms and none of the summary terms.
\<close>

theorem rewrite_query_counterexample:
  "any_term_in summary_terms ''Show me a summary''
   \<and> any_term_in image_terms ''Show me a summary''
   \<and> rewrite_query offline_world ''Show me a summary''
       = ''Show me a summary visual visual_content image picture photo figure''
   \<and> \<not> str_in ''main content overview summary website purpose''
         (rewrite_query offline_world ''Show me a summary'')"
proof -
  have s: "any_term_in summary_terms ''Show me a summary''"
    by (simp add: any_term_in_def summary_terms_def lower_def char_lower_def startswith_def)
  have i: "any_term_in image_terms ''Show me a summary''"
    by (simp add: any_term_in_def image_terms_def lower_def char_lower_def startswith_def)
  have r: "rewrite_query offline_world ''Show me a summary''
           = ''Show me a summary visual visual_content image picture photo figure''"
    using rewrite_query_image [OF i, of offline_world] by (simp add: image_suffix_def)
  have n: "\<not> str_in ''main content overview summary website purpose''
         (rewrite_query offline_world ''Show me a summary'')"
    unfolding r by (simp add: startswith_def)
  from s i r n show ?thesis by blast
qed

text \<open>
  Claim C3, amended.  The rewrites are never combined; each starts from the question
  as asked.  A question with an image-intent keyword gets the image rewrite alone (the
  question followed by the visual/image terms).  Without an image-intent keyword, at
  most one of the summary and specific-topic rewrites applies, the summary one checked
  first; the specific-topic rewrite needs a match of the \<open>about\<close> pattern, and a
  question without any keyword, or without that match, is searched as asked.
\<close>

theorem rewrite_query_cases:
  "(any_term_in image_terms q \<longrightarrow> rewrite_query W q = q @ image_suffix)
   \<and> (\<not> any_term_in image_terms q \<and> any_term_in summary_terms q \<longrightarrow>
        rewrite_query W q = q @ summary_suffix)
   \<and> (\<not> any_term_in image_terms q \<and> \<not> any_term_in summary_terms q
        \<and> any_term_in specific_terms q \<longrightarrow>
        rewrite_query W q =
          (case re_search_about W (lower q) of
             Some specific_topic \<Rightarrow> q @ '' '' @ specific_topic @ '' details information''
           | None \<Rightarrow> q))
   \<and> (\<not> any_term_in image_terms q \<and> \<not> any_term_in summary_terms q
        \<and> \<not> any_term_in specific_terms q \<longrightarrow>
        rewrite_query W q = q)"
  by (simp add: rewrite_query_def Let_def)

theorem rewrite_query_cases_witness:
  "rewrite_query offline_world ''Show me a summary''
     = ''Show me a summary visual visual_content image picture photo figure''
   \<and> rewrite_query offline_world ''Give me a summary''
     = ''Give me a summary main content overview summary website purpose''"
proof (intro conjI)
  have l1: "lower ''Show me a summary'' = ''show me a summary''"
    and l2: "lower ''Give me a summary'' = ''give me a summary''"
    by (simp_all add: lower_def char_lower_def)
  have i1: "any_term_in image_terms ''Show me a summary''"
    by (simp add: any_term_in_def image_terms_def l1 startswith_def)
  have i2: "\<not> any_term_in image_terms ''Give me a summary''
            \<and> any_term_in summary_terms ''Give me a summary''"
    by (simp add: any_term_in_def image_terms_def summary_terms_def l2 startswith_def)
  show "rewrite_query offline_world ''Show me a summary''
     = ''Show me a summary visual visual_content image picture photo figure''"
    using rewrite_query_cases [of "''Show me a summary''" offline_world,
        THEN conjunct1, THEN mp, OF i1]
    by (simp add: image_suffix_def)
  show "rewrite_query offline_world ''Give me a summary''
     = ''Give me a summary main content overview summary website purpose''"
    using rewrite_query_cases [of "''Give me a summary''" offline_world,
        THEN conjunct2, THEN conjunct1, THEN mp, OF i2]
    by (simp add: summary_suffix_def)
qed

lemma search_loop_no_hits:
  assumes "\<forall>url \<in> set urls. \<exists>vdb md. map_of (websites st) url = Some vdb
             \<and> map_of (website_metadata st) url = Some md
             \<and> retrieve vdb (rewrite_query W q) = Inr []"
  shows "search_loop W st q urls ac src = Inr (ac, src)"
  using assms by (induction urls) auto

text \<open>
  Claim C7.  If every searched source is in the session's two dictionaries and its
  retrieval returns zero hits for the question, the handler returns normally with the
  fixed insufficient-information message, with no contributing source, and without a
  call of \<open>query_groq\<close>; the chat entry it appends carries the same message and the
  empty source list.
\<close>

theorem no_hits_no_completion:
  assumes "\<forall>url \<in> set (websites_to_search W st q).
             \<exists>vdb md. map_of (websites st) url = Some vdb
               \<and> map_of (website_metadata st) url = Some md
               \<and> retrieve vdb (rewrite_query W q) = Inr []"
  shows "\<exists>r. chat W temperature st q = Inr r
           \<and> cr_response r = insufficient_message
           \<and> cr_sources r = []
           \<and> cr_groq_calls r = []
           \<and> ce_answer (last (chat_history (cr_session r))) = insufficient_message
           \<and> ce_sources (last (chat_history (cr_session r))) = []"
proof -
  let ?st1 = "st\<lparr>message_history :=
                      message_history st @ [\<lparr>msg_role = ''user'', msg_content = q\<rparr>]\<rparr>"
  have "search_loop W ?st1 q (websites_to_search W st q) [] [] = Inr ([], [])"
    by (rule search_loop_no_hits) (use assms in simp)
  then show ?thesis by (simp add: chat_def Let_def)
qed

theorem no_hits_no_completion_witness:
  "websites_to_search example_world two_sources ''What is this website about?''
     = [''https://alpha.example'', ''https://beta.example'']
   \<and> (\<exists>r. chat example_world (2 / 10) two_sources ''What is this website about?'' = Inr r
          \<and> cr_response r = insufficient_message \<and> cr_sources r = []
          \<and> cr_groq_calls r = [])"
proof (intro conjI)
  show w: "websites_to_search example_world two_sources ''What is this website about?''
     = [''https://alpha.example'', ''https://beta.example'']"
    by (simp add: domain_mentioned_def websites_to_search_def two_sources_keys
        example_world_domain lower_def char_lower_def startswith_def)
  have h: "\<forall>url \<in> set (websites_to_search example_world two_sources
              ''What is this website about?'').
             \<exists>vdb md. map_of (websites two_sources) url = Some vdb
               \<and> map_of (website_metadata two_sources) url = Some md
               \<and> retrieve vdb (rewrite_query example_world ''What is this website about?'')
                   = Inr []"
    unfolding w
    by (simp add: two_sources_def initial_session_def retrieve_def first_docs_index_def)
  from no_hits_no_completion [OF h, of "2 / 10"]
  show "\<exists>r. chat example_world (2 / 10) two_sources ''What is this website about?'' = Inr r
          \<and> cr_response r = insufficient_message \<and> cr_sources r = []
          \<and> cr_groq_calls r = []"
    by blast
qed

end
